theory Spec2Isabelle
  imports Main "HOL-Library.Word" "HOL-Library.Signed_Division" "HOL-Library.Monad_Syntax"
    "HOL-Library.AList"
begin

section \<open>Timers (src/common/timers.c)\<close>

text \<open>
  The C types of the LP64 Linux target: \<open>long\<close>, \<open>time_t\<close> and \<open>suseconds_t\<close> are
  64-bit, \<open>int\<close> is 32-bit. Arithmetic on words wraps around; signed readings are taken
  with \<open>sint\<close>.
\<close>

type_synonym long = "64 word"
type_synonym cint = "32 word"

record timeval =
  tv_sec :: long
  tv_usec :: long

text \<open>\<open>struct timespec\<close>; its seconds field is named \<open>ts_sec\<close> here, because the record
  field \<open>tv_sec\<close> belongs to \<open>timeval\<close>.\<close>

record timespec =
  ts_sec :: long
  tv_nsec :: long

text \<open>C's \<open>/\<close> on \<open>long\<close>: truncation towards zero.\<close>

definition long_sdiv :: "long \<Rightarrow> long \<Rightarrow> long" where
  "long_sdiv a b = word_of_int (sint a sdiv sint b)"

text \<open>
  \<open>slurm_timer_gettime\<close>. The call of \<open>clock_gettime\<close> is the parameter
  \<open>clock_gettime\<close>: the pair of its return code and of the \<open>timespec\<close> it fills in.
  The result is the return code and the new contents of \<open>*tv\<close>.
\<close>

definition slurm_timer_gettime :: "cint \<times> timespec \<Rightarrow> timeval \<Rightarrow> cint \<times> timeval" where
  "slurm_timer_gettime clock_gettime tv =
     (let (rc, cur_time) = clock_gettime in
      if rc = 0
      then (rc, tv\<lparr>tv_sec := ts_sec cur_time,
                    tv_usec := long_sdiv (tv_nsec cur_time) 1000\<rparr>)
      else (rc, tv))"

text \<open>
  \<open>slurm_timer_delta_tv\<close>: the returned \<open>int\<close> and the new contents of \<open>*tv\<close>.
  \<open>delta_t\<close> is an \<open>int\<close>: the \<open>long\<close> product is truncated to 32 bits on assignment,
  and \<open>+=\<close> widens \<open>delta_t\<close> (sign-extended), adds in \<open>long\<close> and truncates again.
\<close>

definition slurm_timer_delta_tv :: "cint \<times> timespec \<Rightarrow> timeval \<Rightarrow> cint \<times> timeval" where
  "slurm_timer_delta_tv clock_gettime tv =
     (let (rc, now) = slurm_timer_gettime clock_gettime \<lparr>tv_sec = 0, tv_usec = 0\<rparr> in
      if rc \<noteq> 0 then (1, tv)
      else if tv_sec tv = 0
      then (0, tv\<lparr>tv_sec := tv_sec now, tv_usec := tv_usec now\<rparr>)
      else
        (let delta_t = (ucast ((tv_sec now - tv_sec tv) * 1000000) :: cint);
             delta_t = (ucast ((scast delta_t :: long) + (tv_usec now - tv_usec tv)) :: cint)
         in (delta_t, tv)))"

text \<open>
  \<open>slurm_delta_tv\<close>: the same with \<open>gettimeofday\<close>, given as the pair of its return
  code and of the \<open>timeval\<close> it stores into \<open>now\<close> (which stays \<open>{0, 0}\<close> on failure).
\<close>

definition slurm_delta_tv :: "cint \<times> timeval \<Rightarrow> timeval \<Rightarrow> cint \<times> timeval" where
  "slurm_delta_tv gettimeofday tv =
     (let (rc, t) = gettimeofday;
          now = (if rc = 0 then t else \<lparr>tv_sec = 0, tv_usec = 0\<rparr>) in
      if rc \<noteq> 0 then (1, tv)
      else if tv_sec tv = 0
      then (0, tv\<lparr>tv_sec := tv_sec now, tv_usec := tv_usec now\<rparr>)
      else
        (let delta_t = (ucast ((tv_sec now - tv_sec tv) * 1000000) :: cint);
             delta_t = (ucast ((scast delta_t :: long) + (tv_usec now - tv_usec tv)) :: cint)
         in (delta_t, tv)))"

subsection \<open>Formatting\<close>

text \<open>The decimal digits of a natural number, most significant first.\<close>

fun dec_digits :: "nat \<Rightarrow> string" where
  "dec_digits n = (if n < 10 then [''0123456789'' ! n]
                   else dec_digits (n div 10) @ [''0123456789'' ! (n mod 10)])"

declare dec_digits.simps [simp del]

definition dec_of_int :: "int \<Rightarrow> string" where
  "dec_of_int x = (if x < 0 then CHR ''-'' # dec_digits (nat (- x)) else dec_digits (nat x))"

text \<open>The conversion \<open>%ld\<close> of \<open>printf\<close>: the signed decimal reading of a \<open>long\<close>.\<close>

definition fmt_ld :: "long \<Rightarrow> string" where
  "fmt_ld x = dec_of_int (sint x)"

text \<open>
  \<open>snprintf(buf, n, ...)\<close> for an output text \<open>out\<close>: with \<open>n = 0\<close> nothing is
  written and the buffer keeps its contents; otherwise the buffer holds the first
  \<open>n - 1\<close> characters of \<open>out\<close> (followed by the terminating NUL, which the string
  value leaves out).
\<close>

definition snprintf :: "string \<Rightarrow> nat \<Rightarrow> string \<Rightarrow> string" where
  "snprintf buf n out = (if n = 0 then buf else take (n - 1) out)"

text \<open>
  What \<open>slurm_timer_diff_tv_str\<close> and \<open>slurm_diff_tv_str\<close> log: \<open>verbose(...)\<close> or
  \<open>debug(...)\<close>, with the arguments \<open>from\<close> and \<open>tv_str\<close>, the \<open>time_t\<close> that is
  formatted as the time of day after \<open>began=\<close>, and the milliseconds that
  \<open>slurm_diff_tv_str\<close> appends to it. The text of the time of day comes from
  \<open>localtime_r\<close> and \<open>strftime\<close> and is not modelled.
\<close>

datatype log_msg =
    Verbose string string long "cint option"
  | Debug string string long "cint option"

record diff_tv_out =
  out_tv_str :: string
  out_delta_t :: long
  out_log :: "log_msg option"

text \<open>
  \<open>slurm_timer_diff_tv_str(tv1, tv2, tv_str, len_tv_str, from, limit, delta_t)\<close>.
  \<open>tv_str\<close> is the content of the buffer before the call, \<open>len_tv_str\<close> its size in
  bytes (a size: a natural number), \<open>from\<close> is \<open>None\<close> for a NULL pointer, and
  \<open>time_now\<close> is what \<open>time(NULL)\<close> returns.
\<close>

definition slurm_timer_diff_tv_str ::
  "long \<Rightarrow> timeval \<Rightarrow> timeval \<Rightarrow> string \<Rightarrow> nat \<Rightarrow> string option \<Rightarrow> long \<Rightarrow> diff_tv_out" where
  "slurm_timer_diff_tv_str time_now tv1 tv2 tv_str len_tv_str from limit =
     (let debug_limit = (ucast limit :: cint);
          delta_t = (tv_sec tv2 - tv_sec tv1) * 1000000;
          delta_t = delta_t + tv_usec tv2;
          delta_t = delta_t - tv_usec tv1;
          tv_str = snprintf tv_str len_tv_str (''usec='' @ fmt_ld delta_t)
      in case from of
           None \<Rightarrow> \<lparr>out_tv_str = tv_str, out_delta_t = delta_t, out_log = None\<rparr>
         | Some f \<Rightarrow>
            (let (limit, debug_limit) =
                   (if limit = 0 then (3000000, 1000000) else (limit, debug_limit))
             in if sint (scast debug_limit :: long) < sint delta_t \<or> sint limit < sint delta_t
                then
                  (let realtime = time_now - delta_t in
                   if sint limit < sint delta_t
                   then \<lparr>out_tv_str = tv_str, out_delta_t = delta_t,
                         out_log = Some (Verbose f tv_str realtime None)\<rparr>
                   else \<lparr>out_tv_str = tv_str, out_delta_t = delta_t,
                         out_log = Some (Debug f tv_str realtime None)\<rparr>)
                else \<lparr>out_tv_str = tv_str, out_delta_t = delta_t, out_log = None\<rparr>))"

text \<open>\<open>slurm_diff_tv_str\<close>: the time of day logged is the one of \<open>tv1\<close>.\<close>

definition slurm_diff_tv_str ::
  "timeval \<Rightarrow> timeval \<Rightarrow> string \<Rightarrow> nat \<Rightarrow> string option \<Rightarrow> long \<Rightarrow> diff_tv_out" where
  "slurm_diff_tv_str tv1 tv2 tv_str len_tv_str from limit =
     (let debug_limit = (ucast limit :: cint);
          delta_t = (tv_sec tv2 - tv_sec tv1) * 1000000;
          delta_t = delta_t + tv_usec tv2;
          delta_t = delta_t - tv_usec tv1;
          tv_str = snprintf tv_str len_tv_str (''usec='' @ fmt_ld delta_t)
      in case from of
           None \<Rightarrow> \<lparr>out_tv_str = tv_str, out_delta_t = delta_t, out_log = None\<rparr>
         | Some f \<Rightarrow>
            (let (limit, debug_limit) =
                   (if limit = 0 then (3000000, 1000000) else (limit, debug_limit))
             in if sint (scast debug_limit :: long) < sint delta_t \<or> sint limit < sint delta_t
                then
                  (let ms = (ucast (long_sdiv (tv_usec tv1) 1000) :: cint) in
                   if sint limit < sint delta_t
                   then \<lparr>out_tv_str = tv_str, out_delta_t = delta_t,
                         out_log = Some (Verbose f tv_str (tv_sec tv1) (Some ms))\<rparr>
                   else \<lparr>out_tv_str = tv_str, out_delta_t = delta_t,
                         out_log = Some (Debug f tv_str (tv_sec tv1) (Some ms))\<rparr>)
                else \<lparr>out_tv_str = tv_str, out_delta_t = delta_t, out_log = None\<rparr>))"

text \<open>The values a \<open>long\<close> can hold, and the exact difference in microseconds.\<close>

definition in_long :: "int \<Rightarrow> bool" where
  "in_long x = (- (2 ^ 63) \<le> x \<and> x < 2 ^ 63)"

definition exact_usec :: "timeval \<Rightarrow> timeval \<Rightarrow> int" where
  "exact_usec tv1 tv2 =
     (sint (tv_sec tv2) - sint (tv_sec tv1)) * 1000000 + sint (tv_usec tv2) - sint (tv_usec tv1)"

text \<open>No step of the computation of \<open>*delta_t\<close> leaves the range of \<open>long\<close>.\<close>

definition no_overflow :: "timeval \<Rightarrow> timeval \<Rightarrow> bool" where
  "no_overflow tv1 tv2 =
     (in_long (sint (tv_sec tv2) - sint (tv_sec tv1)) \<and>
      in_long ((sint (tv_sec tv2) - sint (tv_sec tv1)) * 1000000) \<and>
      in_long ((sint (tv_sec tv2) - sint (tv_sec tv1)) * 1000000 + sint (tv_usec tv2)) \<and>
      in_long (exact_usec tv1 tv2))"

section \<open>Job accounting plugin interface (src/common/slurm_jobacct.c)\<close>

subsection \<open>Memory, external collaborators and the state\<close>

text \<open>
  Pointers are addresses, \<open>None\<close> for NULL. A \<open>plugrack_t\<close> and a
  \<open>plugin_handle_t\<close> are opaque identifiers handed out by the plugin loader
  (\<open>PLUGIN_INVALID_HANDLE\<close> is \<open>None\<close>); a function pointer found in a plugin is an
  identifier too, \<open>None\<close> when the symbol is missing.
\<close>

type_synonym addr = nat
type_synonym ptr = "addr option"
type_synonym rack = nat
type_synonym handle = nat
type_synonym fnptr = "nat option"

text \<open>Modelled from the spec: the status \<open>SLURM_SUCCESS\<close> of slurm/slurm_errno.h, which
  is not under src/: the success status, 0.\<close>

definition SLURM_SUCCESS :: int where
  "SLURM_SUCCESS = 0"

text \<open>Modelled from the spec: the status \<open>SLURM_ERROR\<close> of slurm/slurm_errno.h, which is
  not under src/: the error status, negative (the callers test \<open>< 0\<close>).\<close>

definition SLURM_ERROR :: int where
  "SLURM_ERROR = - 1"

text \<open>\<open>slurm_jobacct_ops_t\<close>: one function pointer per operation, in the order of the
  declaration.\<close>

record slurm_jobacct_ops =
  jobacct_init_struct :: fnptr
  jobacct_alloc :: fnptr
  jobacct_free :: fnptr
  jobacct_setinfo :: fnptr
  jobacct_getinfo :: fnptr
  jobacct_aggregate :: fnptr
  jobacct_pack :: fnptr
  jobacct_unpack :: fnptr
  jobacct_init :: fnptr
  jobacct_fini :: fnptr
  jobacct_job_start :: fnptr
  jobacct_job_complete :: fnptr
  jobacct_step_start :: fnptr
  jobacct_step_complete :: fnptr
  jobacct_suspend :: fnptr
  jobacct_startpoll :: fnptr
  jobacct_endpoll :: fnptr
  jobacct_suspendpoll :: fnptr

definition syms :: "string list" where
  "syms =
    [''jobacct_p_init_struct'',
     ''jobacct_p_alloc'',
     ''jobacct_p_free'',
     ''jobacct_p_setinfo'',
     ''jobacct_p_getinfo'',
     ''jobacct_p_aggregate'',
     ''jobacct_p_pack'',
     ''jobacct_p_unpack'',
     ''jobacct_p_init_slurmctld'',
     ''jobacct_p_fini_slurmctld'',
     ''jobacct_p_job_start_slurmctld'',
     ''jobacct_p_job_complete_slurmctld'',
     ''jobacct_p_step_start_slurmctld'',
     ''jobacct_p_step_complete_slurmctld'',
     ''jobacct_p_suspend_slurmctld'',
     ''jobacct_p_startpoll'',
     ''jobacct_p_endpoll'',
     ''jobacct_p_suspendpoll'']"

text \<open>\<open>struct slurm_jobacct_context\<close>.\<close>

record slurm_jobacct_context =
  jobacct_type :: ptr
  plugin_list :: "rack option"
  cur_plugin :: "handle option"
  jobacct_errno :: int
  ops :: slurm_jobacct_ops

text \<open>What a block of allocated memory holds: a C string or a context.\<close>

datatype obj = Str string | Ctx slurm_jobacct_context

text \<open>An argument passed to a backend operation: a pointer (to a record, a buffer, a job,
  a step or a string, none of which this layer looks into) or an integer.\<close>

datatype arg = ArgPtr ptr | ArgInt int

text \<open>
  The calls that leave this file, in the order they are made: the mutex, the configuration,
  the plugin loader, the backend operations (\<open>Call f args\<close>: the function pointer \<open>f\<close>
  is called with \<open>args\<close>) and \<open>error(...)\<close> with its format string.
\<close>

datatype event =
    Lock
  | Unlock
  | GetJobacctType
  | GetPluginDir
  | PlugrackCreate
  | PlugrackSetMajorType rack string
  | PlugrackSetParanoia rack
  | PlugrackReadDir rack "string option"
  | PlugrackUseByType rack string
  | PluginGetSyms handle nat
  | PlugrackDestroy rack
  | Call nat "arg list"
  | Error string

text \<open>
  The external collaborators, which are not part of this file: what the configuration
  holds (\<open>slurm_get_jobacct_type\<close>, \<open>slurm_get_plugin_dir\<close>: the string, or \<open>None\<close>
  when unset), the rack \<open>plugrack_create\<close> returns (\<open>None\<close>: NULL), the plugin that
  \<open>plugrack_use_by_type\<close> finds, the symbols a plugin exports (\<open>dlsym\<close>), the status of
  \<open>plugrack_destroy\<close>, and what a backend function returns when it is called: a status
  (\<open>backend_int\<close>) or, for \<open>jobacct_alloc\<close>, a pointer (\<open>backend_ptr\<close>).
\<close>

record env =
  slurm_get_jobacct_type :: "string option"
  slurm_get_plugin_dir :: "string option"
  plugrack_create :: "rack option"
  plugrack_use_by_type :: "rack \<Rightarrow> string \<Rightarrow> handle option"
  dlsym :: "handle \<Rightarrow> string \<Rightarrow> fnptr"
  plugrack_destroy :: "rack \<Rightarrow> int"
  backend_int :: "nat \<Rightarrow> arg list \<Rightarrow> int"
  backend_ptr :: "nat \<Rightarrow> arg list \<Rightarrow> ptr"

text \<open>
  The state of the process: the allocated blocks, the two globals
  \<open>g_jobacct_context\<close> and \<open>g_jobacct_context_lock\<close> (\<open>True\<close>: held), and the calls
  made so far.
\<close>

record state =
  heap :: "(addr \<times> obj) list"
  g_jobacct_context :: ptr
  g_jobacct_context_lock :: bool
  trace :: "event list"

definition log_event :: "event \<Rightarrow> state \<Rightarrow> state" where
  "log_event e s = s\<lparr>trace := trace s @ [e]\<rparr>"

text \<open>
  Modelled from the spec: \<open>slurm_mutex_lock\<close> of src/common/macros.h, which is not under
  src/, on \<open>g_jobacct_context_lock\<close>: it acquires the single mutual-exclusion lock. The
  mutex is not recursive: locking it while it is held never returns (\<open>None\<close>).
\<close>

definition slurm_mutex_lock :: "state \<Rightarrow> state option" where
  "slurm_mutex_lock s =
     (if g_jobacct_context_lock s then None
      else Some (log_event Lock (s\<lparr>g_jobacct_context_lock := True\<rparr>)))"

text \<open>Modelled from the spec: \<open>slurm_mutex_unlock\<close> of src/common/macros.h, which is not
  under src/: it releases the lock.\<close>

definition slurm_mutex_unlock :: "state \<Rightarrow> state" where
  "slurm_mutex_unlock s = log_event Unlock (s\<lparr>g_jobacct_context_lock := False\<rparr>)"

text \<open>An address that no allocated block has: one more than the largest in use.\<close>

definition fresh :: "(addr \<times> obj) list \<Rightarrow> addr" where
  "fresh h = Suc (foldr max (map fst h) 0)"

text \<open>Modelled from the spec: \<open>xmalloc\<close> of src/common/xmalloc.c, which is not under
  src/: it returns a newly allocated block, never NULL.\<close>

definition xmalloc :: "obj \<Rightarrow> state \<Rightarrow> addr \<times> state" where
  "xmalloc v s = (let a = fresh (heap s) in (a, s\<lparr>heap := (a, v) # heap s\<rparr>))"

text \<open>Modelled from the spec: \<open>xfree\<close> of src/common/xmalloc.c, which is not under
  src/: it releases the block and does nothing for NULL.\<close>

definition xfree :: "ptr \<Rightarrow> state \<Rightarrow> state" where
  "xfree p s = (case p of None \<Rightarrow> s | Some a \<Rightarrow> s\<lparr>heap := AList.delete a (heap s)\<rparr>)"

text \<open>The C string a pointer refers to (\<open>None\<close> when it refers to none).\<close>

definition str_at :: "state \<Rightarrow> ptr \<Rightarrow> string option" where
  "str_at s p =
     (case p of None \<Rightarrow> None
      | Some a \<Rightarrow> (case map_of (heap s) a of Some (Str t) \<Rightarrow> Some t | _ \<Rightarrow> None))"

text \<open>
  Modelled from the spec: \<open>xstrdup\<close> of src/common/xstring.c, which is not under src/: it
  returns NULL for NULL and otherwise an independently allocated copy of the string, which
  never aliases the caller's memory. Reading a pointer that holds no string is a fault
  (\<open>None\<close>).
\<close>

definition xstrdup :: "ptr \<Rightarrow> state \<Rightarrow> (ptr \<times> state) option" where
  "xstrdup p s =
     (case p of None \<Rightarrow> Some (None, s)
      | Some a \<Rightarrow>
          (case str_at s p of None \<Rightarrow> None
           | Some t \<Rightarrow> (let (b, s) = xmalloc (Str t) s in Some (Some b, s))))"

text \<open>Reading the context a pointer refers to (a fault, \<open>None\<close>, when there is none), and
  writing its fields.\<close>

definition ctx_at :: "state \<Rightarrow> addr \<Rightarrow> slurm_jobacct_context option" where
  "ctx_at s c = (case map_of (heap s) c of Some (Ctx x) \<Rightarrow> Some x | _ \<Rightarrow> None)"

definition ctx_upd ::
  "addr \<Rightarrow> (slurm_jobacct_context \<Rightarrow> slurm_jobacct_context) \<Rightarrow> state \<Rightarrow> state" where
  "ctx_upd c f s =
     (case ctx_at s c of None \<Rightarrow> s
      | Some x \<Rightarrow> s\<lparr>heap := AList.update c (Ctx (f x)) (heap s)\<rparr>)"

text \<open>
  Modelled from the spec: the call \<open>slurm_get_jobacct_type()\<close> of the configuration,
  which is not under src/ (\<open>get_backend_type() -> string\<close>): it returns a copy of the
  configured type, which the caller frees, or NULL when none is configured.
\<close>

definition call_slurm_get_jobacct_type :: "env \<Rightarrow> state \<Rightarrow> ptr \<times> state" where
  "call_slurm_get_jobacct_type e s =
     (let s = log_event GetJobacctType s in
      case slurm_get_jobacct_type e of None \<Rightarrow> (None, s)
      | Some t \<Rightarrow> (let (a, s) = xmalloc (Str t) s in (Some a, s)))"

text \<open>
  Modelled from the spec: the call \<open>slurm_get_plugin_dir()\<close> of the configuration, which
  is not under src/ (\<open>get_plugin_search_path() -> string\<close>): it returns a copy of the
  configured path, which the caller frees, or NULL.
\<close>

definition call_slurm_get_plugin_dir :: "env \<Rightarrow> state \<Rightarrow> ptr \<times> state" where
  "call_slurm_get_plugin_dir e s =
     (let s = log_event GetPluginDir s in
      case slurm_get_plugin_dir e of None \<Rightarrow> (None, s)
      | Some t \<Rightarrow> (let (a, s) = xmalloc (Str t) s in (Some a, s)))"

text \<open>
  Modelled from the spec: \<open>plugin_get_syms\<close> of src/common/plugin.c, which is not under
  src/ (the loader's \<open>resolve_symbols(handle, names)\<close>: one callable or Missing per name,
  in order). It looks up each of the first \<open>n_syms\<close> names in the plugin, stores the
  pointers found (NULL for a missing symbol) and returns how many are not NULL.
\<close>

definition plugin_get_syms :: "env \<Rightarrow> handle \<Rightarrow> nat \<Rightarrow> string list \<Rightarrow> nat \<times> fnptr list" where
  "plugin_get_syms e plug n_syms names =
     (let ptrs = map (dlsym e plug) (take n_syms names)
      in (length (filter (\<lambda>p. p \<noteq> None) ptrs), ptrs))"

text \<open>The cast \<open>(void **) &c->ops\<close>: the array of pointers laid over the fields of
  \<open>slurm_jobacct_ops_t\<close>, in their order.\<close>

definition ops_of_ptrs :: "fnptr list \<Rightarrow> slurm_jobacct_ops" where
  "ops_of_ptrs ps =
     \<lparr>jobacct_init_struct = ps ! 0, jobacct_alloc = ps ! 1, jobacct_free = ps ! 2,
      jobacct_setinfo = ps ! 3, jobacct_getinfo = ps ! 4, jobacct_aggregate = ps ! 5,
      jobacct_pack = ps ! 6, jobacct_unpack = ps ! 7, jobacct_init = ps ! 8,
      jobacct_fini = ps ! 9, jobacct_job_start = ps ! 10, jobacct_job_complete = ps ! 11,
      jobacct_step_start = ps ! 12, jobacct_step_complete = ps ! 13,
      jobacct_suspend = ps ! 14, jobacct_startpoll = ps ! 15, jobacct_endpoll = ps ! 16,
      jobacct_suspendpoll = ps ! 17\<rparr>"

text \<open>The zero-filled context that \<open>xmalloc\<close> returns.\<close>

definition zero_context :: slurm_jobacct_context where
  "zero_context =
     \<lparr>jobacct_type = None, plugin_list = None, cur_plugin = None, jobacct_errno = 0,
      ops = ops_of_ptrs (replicate 18 None)\<rparr>"

subsection \<open>The context\<close>

text \<open>
  \<open>_slurm_jobacct_context_create\<close> (the names of the static functions are written
  without their leading underscore). The result is the pointer returned and the new state.
\<close>

definition slurm_jobacct_context_create :: "ptr \<Rightarrow> state \<Rightarrow> (ptr \<times> state) option" where
  "slurm_jobacct_context_create type_name s =
     (if type_name = None
      then Some (None, log_event (Error ''_slurm_jobacct_context_create: no jobacct type'') s)
      else do {
        let (c, s) = xmalloc (Ctx zero_context) s;
        let s = ctx_upd c (\<lambda>x. x\<lparr>jobacct_errno := SLURM_SUCCESS\<rparr>) s;
        (t, s) \<leftarrow> xstrdup type_name s;
        let s = ctx_upd c (\<lambda>x. x\<lparr>jobacct_type := t\<rparr>) s;
        if t = None
        then Some (None, xfree (Some c)
                     (log_event (Error ''can't make local copy of jobacct type'') s))
        else do {
          let s = ctx_upd c (\<lambda>x. x\<lparr>plugin_list := None\<rparr>) s;
          let s = ctx_upd c (\<lambda>x. x\<lparr>cur_plugin := None\<rparr>) s;
          Some (Some c, s)
        }
      })"

text \<open>\<open>_slurm_jobacct_context_destroy\<close>: the status returned and the new state.\<close>

definition slurm_jobacct_context_destroy :: "env \<Rightarrow> addr \<Rightarrow> state \<Rightarrow> (int \<times> state) option" where
  "slurm_jobacct_context_destroy e c s = do {
     x \<leftarrow> ctx_at s c;
     case plugin_list x of
       Some r \<Rightarrow>
         (let s = log_event (PlugrackDestroy r) s in
          if plugrack_destroy e r \<noteq> SLURM_SUCCESS then Some (SLURM_ERROR, s)
          else Some (SLURM_SUCCESS, xfree (Some c) (xfree (jobacct_type x) s)))
     | None \<Rightarrow> Some (SLURM_SUCCESS, xfree (Some c) (xfree (jobacct_type x) s))
   }"

text \<open>
  \<open>_slurm_jobacct_get_ops\<close>, second half (from "Find the correct plugin" on), reached
  with \<open>c->plugin_list\<close> set. \<open>True\<close> stands for the result \<open>&c->ops\<close>, \<open>False\<close> for
  NULL.
\<close>

definition slurm_jobacct_get_ops_find :: "env \<Rightarrow> addr \<Rightarrow> state \<Rightarrow> (bool \<times> state) option" where
  "slurm_jobacct_get_ops_find e c s = do {
     let n_syms = length syms;
     x \<leftarrow> ctx_at s c;
     r \<leftarrow> plugin_list x;
     t \<leftarrow> str_at s (jobacct_type x);
     let s = log_event (PlugrackUseByType r t) s;
     let s = ctx_upd c (\<lambda>x. x\<lparr>cur_plugin := plugrack_use_by_type e r t\<rparr>) s;
     case plugrack_use_by_type e r t of
       None \<Rightarrow> Some (False, log_event (Error ''can't find a plugin for type %s'') s)
     | Some plug \<Rightarrow>
         (let s = log_event (PluginGetSyms plug n_syms) s;
              (rc, ptrs) = plugin_get_syms e plug n_syms syms;
              s = ctx_upd c (\<lambda>x. x\<lparr>ops := ops_of_ptrs ptrs\<rparr>) s
          in if rc < n_syms
             then Some (False, log_event
                    (Error ''incomplete jobacct plugin detected only got %d out of %d'') s)
             else Some (True, s))
   }"

text \<open>\<open>_slurm_jobacct_get_ops\<close>: the plugin rack is created on first use.\<close>

definition slurm_jobacct_get_ops :: "env \<Rightarrow> addr \<Rightarrow> state \<Rightarrow> (bool \<times> state) option" where
  "slurm_jobacct_get_ops e c s = do {
     x \<leftarrow> ctx_at s c;
     if plugin_list x = None
     then
       (let s = log_event PlugrackCreate s;
            s = ctx_upd c (\<lambda>x. x\<lparr>plugin_list := plugrack_create e\<rparr>) s
        in case plugrack_create e of
             None \<Rightarrow> Some (False, log_event (Error ''Unable to create a plugin manager'') s)
           | Some r \<Rightarrow>
               (let s = log_event (PlugrackSetMajorType r ''jobacct'') s;
                    s = log_event (PlugrackSetParanoia r) s;
                    (plugin_dir, s) = call_slurm_get_plugin_dir e s;
                    s = log_event (PlugrackReadDir r (str_at s plugin_dir)) s;
                    s = xfree plugin_dir s
                in slurm_jobacct_get_ops_find e c s))
     else slurm_jobacct_get_ops_find e c s
   }"

text \<open>\<open>_slurm_jobacct_init\<close>: the status returned and the new state.\<close>

definition slurm_jobacct_init :: "env \<Rightarrow> state \<Rightarrow> (int \<times> state) option" where
  "slurm_jobacct_init e s = do {
     let retval = SLURM_SUCCESS;
     s \<leftarrow> slurm_mutex_lock s;
     (retval, type_name, s) \<leftarrow>
       (if g_jobacct_context s \<noteq> None then Some (retval, None, s)
        else do {
          let (type_name, s) = call_slurm_get_jobacct_type e s;
          (c, s) \<leftarrow> slurm_jobacct_context_create type_name s;
          let s = s\<lparr>g_jobacct_context := c\<rparr>;
          case c of
            None \<Rightarrow>
              Some (SLURM_ERROR, type_name,
                    log_event (Error ''cannot create a context for %s'') s)
          | Some ca \<Rightarrow> do {
              (found, s) \<leftarrow> slurm_jobacct_get_ops e ca s;
              if \<not> found
              then do {
                let s = log_event
                  (Error ''cannot resolve job accounting plugin operations'') s;
                (rc, s) \<leftarrow> slurm_jobacct_context_destroy e ca s;
                Some (SLURM_ERROR, type_name, s\<lparr>g_jobacct_context := None\<rparr>)
              }
              else Some (retval, type_name, s)
            }
        });
     let s = slurm_mutex_unlock s;
     let s = xfree type_name s;
     Some (retval, s)
   }"

text \<open>\<open>_slurm_jobacct_fini\<close>.\<close>

definition slurm_jobacct_fini :: "env \<Rightarrow> state \<Rightarrow> (int \<times> state) option" where
  "slurm_jobacct_fini e s =
     (case g_jobacct_context s of
        None \<Rightarrow> Some (SLURM_SUCCESS, s)
      | Some c \<Rightarrow> do {
          (rc, s) \<leftarrow> slurm_jobacct_context_destroy e c s;
          Some (rc, s\<lparr>g_jobacct_context := None\<rparr>)
        })"

subsection \<open>The facade\<close>

text \<open>
  \<open>(*(g_jobacct_context->ops.f))(args)\<close>: the global is dereferenced, the field \<open>f\<close> of
  its operation table is read and the pointer is called. Calling through a NULL pointer,
  or reading a context that is not there, is a fault (\<open>None\<close>).
\<close>

definition call_int ::
  "env \<Rightarrow> (slurm_jobacct_ops \<Rightarrow> fnptr) \<Rightarrow> arg list \<Rightarrow> state \<Rightarrow> (int \<times> state) option" where
  "call_int e fld args s = do {
     c \<leftarrow> g_jobacct_context s;
     x \<leftarrow> ctx_at s c;
     f \<leftarrow> fld (ops x);
     Some (backend_int e f args, log_event (Call f args) s)
   }"

definition call_ptr ::
  "env \<Rightarrow> (slurm_jobacct_ops \<Rightarrow> fnptr) \<Rightarrow> arg list \<Rightarrow> state \<Rightarrow> (ptr \<times> state) option" where
  "call_ptr e fld args s = do {
     c \<leftarrow> g_jobacct_context s;
     x \<leftarrow> ctx_at s c;
     f \<leftarrow> fld (ops x);
     Some (backend_ptr e f args, log_event (Call f args) s)
   }"

definition call_void ::
  "env \<Rightarrow> (slurm_jobacct_ops \<Rightarrow> fnptr) \<Rightarrow> arg list \<Rightarrow> state \<Rightarrow> state option" where
  "call_void e fld args s = do {
     c \<leftarrow> g_jobacct_context s;
     x \<leftarrow> ctx_at s c;
     f \<leftarrow> fld (ops x);
     Some (log_event (Call f args) s)
   }"

definition jobacct_g_init_struct :: "env \<Rightarrow> ptr \<Rightarrow> state \<Rightarrow> (int \<times> state) option" where
  "jobacct_g_init_struct e jobacct s = do {
     let retval = SLURM_SUCCESS;
     (rc, s) \<leftarrow> slurm_jobacct_init e s;
     if rc < 0 then Some (SLURM_ERROR, s)
     else do {
       s \<leftarrow> slurm_mutex_lock s;
       (retval, s) \<leftarrow>
         (if g_jobacct_context s \<noteq> None
          then call_int e jobacct_init_struct [ArgPtr jobacct] s
          else Some (retval, s));
       Some (retval, slurm_mutex_unlock s)
     }
   }"

definition jobacct_g_alloc :: "env \<Rightarrow> state \<Rightarrow> (ptr \<times> state) option" where
  "jobacct_g_alloc e s = do {
     let jobacct = None;
     (rc, s) \<leftarrow> slurm_jobacct_init e s;
     if rc < 0 then Some (jobacct, s)
     else do {
       s \<leftarrow> slurm_mutex_lock s;
       (jobacct, s) \<leftarrow>
         (if g_jobacct_context s \<noteq> None
          then call_ptr e jobacct_alloc [] s
          else Some (jobacct, s));
       Some (jobacct, slurm_mutex_unlock s)
     }
   }"

definition jobacct_g_free :: "env \<Rightarrow> ptr \<Rightarrow> state \<Rightarrow> (int \<times> state) option" where
  "jobacct_g_free e jobacct s = do {
     let retval = SLURM_SUCCESS;
     s \<leftarrow> slurm_mutex_lock s;
     (retval, s) \<leftarrow>
       (if g_jobacct_context s \<noteq> None
        then call_int e jobacct_free [ArgPtr jobacct] s
        else Some (retval, s));
     Some (retval, slurm_mutex_unlock s)
   }"

definition jobacct_g_setinfo :: "env \<Rightarrow> ptr \<Rightarrow> int \<Rightarrow> ptr \<Rightarrow> state \<Rightarrow> (int \<times> state) option" where
  "jobacct_g_setinfo e jobacct data_type data s = do {
     let retval = SLURM_SUCCESS;
     s \<leftarrow> slurm_mutex_lock s;
     (retval, s) \<leftarrow>
       (if g_jobacct_context s \<noteq> None
        then call_int e jobacct_setinfo [ArgPtr jobacct, ArgInt data_type, ArgPtr data] s
        else Some (retval, s));
     Some (retval, slurm_mutex_unlock s)
   }"

definition jobacct_g_getinfo :: "env \<Rightarrow> ptr \<Rightarrow> int \<Rightarrow> ptr \<Rightarrow> state \<Rightarrow> (int \<times> state) option" where
  "jobacct_g_getinfo e jobacct data_type data s = do {
     let retval = SLURM_SUCCESS;
     s \<leftarrow> slurm_mutex_lock s;
     (retval, s) \<leftarrow>
       (if g_jobacct_context s \<noteq> None
        then call_int e jobacct_getinfo [ArgPtr jobacct, ArgInt data_type, ArgPtr data] s
        else Some (retval, s));
     Some (retval, slurm_mutex_unlock s)
   }"

definition jobacct_g_aggregate :: "env \<Rightarrow> ptr \<Rightarrow> ptr \<Rightarrow> state \<Rightarrow> state option" where
  "jobacct_g_aggregate e dest from s = do {
     s \<leftarrow> slurm_mutex_lock s;
     s \<leftarrow>
       (if g_jobacct_context s \<noteq> None
        then call_void e jobacct_aggregate [ArgPtr dest, ArgPtr from] s
        else Some s);
     Some (slurm_mutex_unlock s)
   }"

definition jobacct_g_pack :: "env \<Rightarrow> ptr \<Rightarrow> ptr \<Rightarrow> state \<Rightarrow> state option" where
  "jobacct_g_pack e jobacct buffer s = do {
     s \<leftarrow> slurm_mutex_lock s;
     s \<leftarrow>
       (if g_jobacct_context s \<noteq> None
        then call_void e jobacct_pack [ArgPtr jobacct, ArgPtr buffer] s
        else Some s);
     Some (slurm_mutex_unlock s)
   }"

definition jobacct_g_unpack :: "env \<Rightarrow> ptr \<Rightarrow> ptr \<Rightarrow> state \<Rightarrow> (int \<times> state) option" where
  "jobacct_g_unpack e jobacct buffer s = do {
     let retval = SLURM_SUCCESS;
     s \<leftarrow> slurm_mutex_lock s;
     (retval, s) \<leftarrow>
       (if g_jobacct_context s \<noteq> None
        then call_int e jobacct_unpack [ArgPtr jobacct, ArgPtr buffer] s
        else Some (retval, s));
     Some (retval, slurm_mutex_unlock s)
   }"

definition jobacct_g_init_slurmctld :: "env \<Rightarrow> ptr \<Rightarrow> state \<Rightarrow> (int \<times> state) option" where
  "jobacct_g_init_slurmctld e job_acct_log s = do {
     let retval = SLURM_SUCCESS;
     (rc, s) \<leftarrow> slurm_jobacct_init e s;
     if rc < 0 then Some (SLURM_ERROR, s)
     else do {
       s \<leftarrow> slurm_mutex_lock s;
       (retval, s) \<leftarrow>
         (if g_jobacct_context s \<noteq> None
          then call_int e jobacct_init [ArgPtr job_acct_log] s
          else Some (retval, s));
       Some (retval, slurm_mutex_unlock s)
     }
   }"

text \<open>\<open>jobacct_g_fini_slurmctld\<close>: the backend is told first, under the lock; the context
  is torn down by \<open>_slurm_jobacct_fini\<close> after the lock is released.\<close>

definition jobacct_g_fini_slurmctld :: "env \<Rightarrow> state \<Rightarrow> (int \<times> state) option" where
  "jobacct_g_fini_slurmctld e s = do {
     let retval = SLURM_SUCCESS;
     s \<leftarrow> slurm_mutex_lock s;
     (retval, s) \<leftarrow>
       (if g_jobacct_context s \<noteq> None
        then call_int e jobacct_fini [] s
        else Some (retval, s));
     let s = slurm_mutex_unlock s;
     (rc, s) \<leftarrow> slurm_jobacct_fini e s;
     if rc < 0 then Some (SLURM_ERROR, s) else Some (retval, s)
   }"

definition jobacct_g_job_start_slurmctld :: "env \<Rightarrow> ptr \<Rightarrow> state \<Rightarrow> (int \<times> state) option" where
  "jobacct_g_job_start_slurmctld e job_ptr s = do {
     let retval = SLURM_SUCCESS;
     s \<leftarrow> slurm_mutex_lock s;
     (retval, s) \<leftarrow>
       (if g_jobacct_context s \<noteq> None
        then call_int e jobacct_job_start [ArgPtr job_ptr] s
        else Some (retval, s));
     Some (retval, slurm_mutex_unlock s)
   }"

definition jobacct_g_job_complete_slurmctld :: "env \<Rightarrow> ptr \<Rightarrow> state \<Rightarrow> (int \<times> state) option" where
  "jobacct_g_job_complete_slurmctld e job_ptr s = do {
     let retval = SLURM_SUCCESS;
     s \<leftarrow> slurm_mutex_lock s;
     (retval, s) \<leftarrow>
       (if g_jobacct_context s \<noteq> None
        then call_int e jobacct_job_complete [ArgPtr job_ptr] s
        else Some (retval, s));
     Some (retval, slurm_mutex_unlock s)
   }"

definition jobacct_g_step_start_slurmctld :: "env \<Rightarrow> ptr \<Rightarrow> state \<Rightarrow> (int \<times> state) option" where
  "jobacct_g_step_start_slurmctld e step_ptr s = do {
     let retval = SLURM_SUCCESS;
     s \<leftarrow> slurm_mutex_lock s;
     (retval, s) \<leftarrow>
       (if g_jobacct_context s \<noteq> None
        then call_int e jobacct_step_start [ArgPtr step_ptr] s
        else Some (retval, s));
     Some (retval, slurm_mutex_unlock s)
   }"

definition jobacct_g_step_complete_slurmctld :: "env \<Rightarrow> ptr \<Rightarrow> state \<Rightarrow> (int \<times> state) option" where
  "jobacct_g_step_complete_slurmctld e step_ptr s = do {
     let retval = SLURM_SUCCESS;
     s \<leftarrow> slurm_mutex_lock s;
     (retval, s) \<leftarrow>
       (if g_jobacct_context s \<noteq> None
        then call_int e jobacct_step_complete [ArgPtr step_ptr] s
        else Some (retval, s));
     Some (retval, slurm_mutex_unlock s)
   }"

definition jobacct_g_suspend_slurmctld :: "env \<Rightarrow> ptr \<Rightarrow> state \<Rightarrow> (int \<times> state) option" where
  "jobacct_g_suspend_slurmctld e job_ptr s = do {
     let retval = SLURM_SUCCESS;
     s \<leftarrow> slurm_mutex_lock s;
     (retval, s) \<leftarrow>
       (if g_jobacct_context s \<noteq> None
        then call_int e jobacct_suspend [ArgPtr job_ptr] s
        else Some (retval, s));
     Some (retval, slurm_mutex_unlock s)
   }"

definition jobacct_g_startpoll :: "env \<Rightarrow> int \<Rightarrow> state \<Rightarrow> (int \<times> state) option" where
  "jobacct_g_startpoll e frequency s = do {
     let retval = SLURM_SUCCESS;
     (rc, s) \<leftarrow> slurm_jobacct_init e s;
     if rc < 0 then Some (SLURM_ERROR, s)
     else do {
       s \<leftarrow> slurm_mutex_lock s;
       (retval, s) \<leftarrow>
         (if g_jobacct_context s \<noteq> None
          then call_int e jobacct_startpoll [ArgInt frequency] s
          else Some (retval, s));
       Some (retval, slurm_mutex_unlock s)
     }
   }"

definition jobacct_g_endpoll :: "env \<Rightarrow> ptr \<Rightarrow> state \<Rightarrow> (int \<times> state) option" where
  "jobacct_g_endpoll e job s = do {
     let retval = SLURM_SUCCESS;
     s \<leftarrow> slurm_mutex_lock s;
     (retval, s) \<leftarrow>
       (if g_jobacct_context s \<noteq> None
        then call_int e jobacct_endpoll [ArgPtr job] s
        else Some (retval, s));
     Some (retval, slurm_mutex_unlock s)
   }"

definition jobacct_g_suspendpoll :: "env \<Rightarrow> state \<Rightarrow> state option" where
  "jobacct_g_suspendpoll e s = do {
     s \<leftarrow> slurm_mutex_lock s;
     s \<leftarrow>
       (if g_jobacct_context s \<noteq> None
        then call_void e jobacct_suspendpoll [] s
        else Some s);
     Some (slurm_mutex_unlock s)
   }"

subsection \<open>Runs of the facade\<close>

text \<open>One call of an entry point of the facade, with its arguments.\<close>

datatype facade_call =
    G_init_struct ptr
  | G_alloc
  | G_free ptr
  | G_setinfo ptr int ptr
  | G_getinfo ptr int ptr
  | G_aggregate ptr ptr
  | G_pack ptr ptr
  | G_unpack ptr ptr
  | G_init_slurmctld ptr
  | G_fini_slurmctld
  | G_job_start_slurmctld ptr
  | G_job_complete_slurmctld ptr
  | G_step_start_slurmctld ptr
  | G_step_complete_slurmctld ptr
  | G_suspend_slurmctld ptr
  | G_startpoll int
  | G_endpoll ptr
  | G_suspendpoll

text \<open>The state an entry point leaves (\<open>None\<close> when the call faults or never returns).\<close>

fun facade :: "env \<Rightarrow> facade_call \<Rightarrow> state \<Rightarrow> state option" where
  "facade e (G_init_struct jobacct) s = map_option snd (jobacct_g_init_struct e jobacct s)"
| "facade e G_alloc s = map_option snd (jobacct_g_alloc e s)"
| "facade e (G_free jobacct) s = map_option snd (jobacct_g_free e jobacct s)"
| "facade e (G_setinfo jobacct t data) s = map_option snd (jobacct_g_setinfo e jobacct t data s)"
| "facade e (G_getinfo jobacct t data) s = map_option snd (jobacct_g_getinfo e jobacct t data s)"
| "facade e (G_aggregate dest from) s = jobacct_g_aggregate e dest from s"
| "facade e (G_pack jobacct buffer) s = jobacct_g_pack e jobacct buffer s"
| "facade e (G_unpack jobacct buffer) s = map_option snd (jobacct_g_unpack e jobacct buffer s)"
| "facade e (G_init_slurmctld l) s = map_option snd (jobacct_g_init_slurmctld e l s)"
| "facade e G_fini_slurmctld s = map_option snd (jobacct_g_fini_slurmctld e s)"
| "facade e (G_job_start_slurmctld j) s = map_option snd (jobacct_g_job_start_slurmctld e j s)"
| "facade e (G_job_complete_slurmctld j) s =
     map_option snd (jobacct_g_job_complete_slurmctld e j s)"
| "facade e (G_step_start_slurmctld j) s = map_option snd (jobacct_g_step_start_slurmctld e j s)"
| "facade e (G_step_complete_slurmctld j) s =
     map_option snd (jobacct_g_step_complete_slurmctld e j s)"
| "facade e (G_suspend_slurmctld j) s = map_option snd (jobacct_g_suspend_slurmctld e j s)"
| "facade e (G_startpoll f) s = map_option snd (jobacct_g_startpoll e f s)"
| "facade e (G_endpoll j) s = map_option snd (jobacct_g_endpoll e j s)"
| "facade e G_suspendpoll s = jobacct_g_suspendpoll e s"

text \<open>The entry points that call \<open>_slurm_jobacct_init\<close>.\<close>

fun lazy_init_call :: "facade_call \<Rightarrow> bool" where
  "lazy_init_call (G_init_struct _) = True"
| "lazy_init_call G_alloc = True"
| "lazy_init_call (G_init_slurmctld _) = True"
| "lazy_init_call (G_startpoll _) = True"
| "lazy_init_call _ = False"

text \<open>
  The states the process can be in between two calls of the facade: it starts with the
  static initialisers (no context, the mutex free) and goes on by calls of entry points
  that return, each in an environment of its own.
\<close>

inductive reachable :: "state \<Rightarrow> bool" where
  start: "g_jobacct_context s = None \<Longrightarrow> \<not> g_jobacct_context_lock s \<Longrightarrow> reachable s"
| step: "reachable s \<Longrightarrow> facade e call s = Some s' \<Longrightarrow> reachable s'"

text \<open>Every operation of the table is resolved.\<close>

definition ops_resolved :: "slurm_jobacct_ops \<Rightarrow> bool" where
  "ops_resolved x =
     (jobacct_init_struct x \<noteq> None \<and> jobacct_alloc x \<noteq> None \<and> jobacct_free x \<noteq> None \<and>
      jobacct_setinfo x \<noteq> None \<and> jobacct_getinfo x \<noteq> None \<and> jobacct_aggregate x \<noteq> None \<and>
      jobacct_pack x \<noteq> None \<and> jobacct_unpack x \<noteq> None \<and> jobacct_init x \<noteq> None \<and>
      jobacct_fini x \<noteq> None \<and> jobacct_job_start x \<noteq> None \<and>
      jobacct_job_complete x \<noteq> None \<and> jobacct_step_start x \<noteq> None \<and>
      jobacct_step_complete x \<noteq> None \<and> jobacct_suspend x \<noteq> None \<and>
      jobacct_startpoll x \<noteq> None \<and> jobacct_endpoll x \<noteq> None \<and>
      jobacct_suspendpoll x \<noteq> None)"

text \<open>The global is NULL or points to a context whose table is fully resolved.\<close>

definition context_ok :: "state \<Rightarrow> bool" where
  "context_ok s =
     (case g_jobacct_context s of
        None \<Rightarrow> True
      | Some c \<Rightarrow> (case ctx_at s c of None \<Rightarrow> False | Some x \<Rightarrow> ops_resolved (ops x)))"

definition wf_state :: "state \<Rightarrow> bool" where
  "wf_state s = (\<not> g_jobacct_context_lock s \<and> context_ok s)"

text \<open>The calls an entry point adds to the trace.\<close>

definition new_events :: "state \<Rightarrow> state \<Rightarrow> event list" where
  "new_events s s' = drop (length (trace s)) (trace s')"

text \<open>A call with no context that only takes and releases the lock.\<close>

definition idle :: "state \<Rightarrow> state" where
  "idle s = s\<lparr>trace := trace s @ [Lock, Unlock]\<rparr>"

text \<open>Replaying a trace from a lock status: every call other than the lock and the unlock
  is made while the lock is held.\<close>

fun all_under_lock :: "bool \<Rightarrow> event list \<Rightarrow> bool" where
  "all_under_lock held [] = True"
| "all_under_lock held (ev # es) =
     (if ev = Lock then all_under_lock True es
      else if ev = Unlock then all_under_lock False es
      else held \<and> all_under_lock held es)"

text \<open>The calls that \<open>lock_respected\<close> looks at: every step of initialization, every
  backend operation and every \<open>error(...)\<close>, that is all of them but the destruction of a
  plugin rack.\<close>

fun needs_lock :: "event \<Rightarrow> bool" where
  "needs_lock (PlugrackDestroy _) = False"
| "needs_lock _ = True"

text \<open>Replaying a trace from a lock status: every call that \<open>needs_lock\<close> looks at is
  made while the lock is held.\<close>

fun lock_respected :: "bool \<Rightarrow> event list \<Rightarrow> bool" where
  "lock_respected held [] = True"
| "lock_respected held (ev # es) =
     (if ev = Lock then lock_respected True es
      else if ev = Unlock then lock_respected False es
      else (held \<or> \<not> needs_lock ev) \<and> lock_respected held es)"

text \<open>The lock is taken once, first, and released once, last.\<close>

definition held_across :: "event list \<Rightarrow> bool" where
  "held_across es =
     (es \<noteq> [] \<and> hd es = Lock \<and> last es = Unlock \<and>
      Lock \<notin> set (tl es) \<and> Unlock \<notin> set (butlast es))"

text \<open>How many of the symbols of \<open>syms\<close> a plugin resolves.\<close>

definition resolved_count :: "env \<Rightarrow> handle \<Rightarrow> nat" where
  "resolved_count e plug = length (filter (\<lambda>p. p \<noteq> None) (map (dlsym e plug) syms))"

text \<open>The environments in which initialization can succeed: a type is configured, the
  rack is created, a plugin of that type is found and it resolves every symbol.\<close>

definition backend_available :: "env \<Rightarrow> bool" where
  "backend_available e =
     (case slurm_get_jobacct_type e of
        None \<Rightarrow> False
      | Some ty \<Rightarrow>
          (case plugrack_create e of
             None \<Rightarrow> False
           | Some r \<Rightarrow>
               (case plugrack_use_by_type e r ty of
                  None \<Rightarrow> False
                | Some plug \<Rightarrow> \<not> resolved_count e plug < length syms)))"

subsection \<open>Concrete environments and states\<close>

text \<open>A plugin that exports every symbol of \<open>syms\<close> and nothing else: the function
  pointer of the symbol at position \<open>i\<close> is \<open>100 + i\<close>.\<close>

definition full_plugin :: "string \<Rightarrow> fnptr" where
  "full_plugin name =
     (if name = ''jobacct_p_init_struct'' then Some 100
      else if name = ''jobacct_p_alloc'' then Some 101
      else if name = ''jobacct_p_free'' then Some 102
      else if name = ''jobacct_p_setinfo'' then Some 103
      else if name = ''jobacct_p_getinfo'' then Some 104
      else if name = ''jobacct_p_aggregate'' then Some 105
      else if name = ''jobacct_p_pack'' then Some 106
      else if name = ''jobacct_p_unpack'' then Some 107
      else if name = ''jobacct_p_init_slurmctld'' then Some 108
      else if name = ''jobacct_p_fini_slurmctld'' then Some 109
      else if name = ''jobacct_p_job_start_slurmctld'' then Some 110
      else if name = ''jobacct_p_job_complete_slurmctld'' then Some 111
      else if name = ''jobacct_p_step_start_slurmctld'' then Some 112
      else if name = ''jobacct_p_step_complete_slurmctld'' then Some 113
      else if name = ''jobacct_p_suspend_slurmctld'' then Some 114
      else if name = ''jobacct_p_startpoll'' then Some 115
      else if name = ''jobacct_p_endpoll'' then Some 116
      else if name = ''jobacct_p_suspendpoll'' then Some 117
      else None)"

text \<open>
  An environment in which everything works: the type \<open>jobacct/log\<close> is configured, the
  rack 1 is created, the plugin 7 is found for that type and exports all the symbols;
  \<open>plugrack_destroy\<close> succeeds, and every backend operation returns the status 5.
\<close>

definition env_ok :: env where
  "env_ok =
     \<lparr>slurm_get_jobacct_type = Some ''jobacct/log'',
      slurm_get_plugin_dir = Some ''/usr/lib/slurm'',
      plugrack_create = Some 1,
      plugrack_use_by_type = (\<lambda>r t. if t = ''jobacct/log'' then Some 7 else None),
      dlsym = (\<lambda>plug name. full_plugin name),
      plugrack_destroy = (\<lambda>r. SLURM_SUCCESS),
      backend_int = (\<lambda>f args. 5),
      backend_ptr = (\<lambda>f args. Some 1000)\<rparr>"

text \<open>The same, with a plugin that lacks \<open>jobacct_p_suspendpoll\<close>: 17 symbols of 18.\<close>

definition env_17 :: env where
  "env_17 =
     env_ok\<lparr>dlsym := (\<lambda>plug name.
        if name = ''jobacct_p_suspendpoll'' then None else full_plugin name)\<rparr>"

text \<open>The same as \<open>env_ok\<close>, with a backend whose operations all report failure and a
  rack that cannot be destroyed.\<close>

definition env_failing :: env where
  "env_failing =
     env_ok\<lparr>plugrack_destroy := (\<lambda>r. SLURM_ERROR), backend_int := (\<lambda>f args. SLURM_ERROR)\<rparr>"

text \<open>The state at the start of the process.\<close>

definition s_start :: state where
  "s_start = \<lparr>heap = [], g_jobacct_context = None, g_jobacct_context_lock = False, trace = []\<rparr>"

text \<open>The operation table that the plugin of \<open>env_ok\<close> resolves.\<close>

definition ops_ready :: slurm_jobacct_ops where
  "ops_ready =
     \<lparr>jobacct_init_struct = Some 100, jobacct_alloc = Some 101, jobacct_free = Some 102,
      jobacct_setinfo = Some 103, jobacct_getinfo = Some 104, jobacct_aggregate = Some 105,
      jobacct_pack = Some 106, jobacct_unpack = Some 107, jobacct_init = Some 108,
      jobacct_fini = Some 109, jobacct_job_start = Some 110, jobacct_job_complete = Some 111,
      jobacct_step_start = Some 112, jobacct_step_complete = Some 113,
      jobacct_suspend = Some 114, jobacct_startpoll = Some 115, jobacct_endpoll = Some 116,
      jobacct_suspendpoll = Some 117\<rparr>"

text \<open>The context that initialization builds in \<open>env_ok\<close>.\<close>

definition ctx_ready :: slurm_jobacct_context where
  "ctx_ready =
     \<lparr>jobacct_type = Some 3, plugin_list = Some 1, cur_plugin = Some 7, jobacct_errno = 0,
      ops = ops_ready\<rparr>"

text \<open>The state that \<open>_slurm_jobacct_init\<close> leaves from \<open>s_start\<close> in \<open>env_ok\<close>
  (with an empty trace): the context at address 2, its copy of the type at address 3.\<close>

definition s_ready :: state where
  "s_ready =
     \<lparr>heap = [(3, Str ''jobacct/log''), (2, Ctx ctx_ready)],
      g_jobacct_context = Some 2, g_jobacct_context_lock = False, trace = []\<rparr>"

text \<open>A state in which a caller holds the empty string at address 1.\<close>

definition s_empty_type :: state where
  "s_empty_type = s_start\<lparr>heap := [(1, Str [])]\<rparr>"

text \<open>The state that \<open>_slurm_jobacct_init\<close> leaves from \<open>s_start\<close> in \<open>env_17\<close>: no
  context, nothing allocated.\<close>

definition s_failed :: state where
  "s_failed =
     s_start\<lparr>trace :=
       [Lock, GetJobacctType, PlugrackCreate, PlugrackSetMajorType 1 ''jobacct'',
        PlugrackSetParanoia 1, GetPluginDir, PlugrackReadDir 1 (Some ''/usr/lib/slurm''),
        PlugrackUseByType 1 ''jobacct/log'', PluginGetSyms 7 18,
        Error ''incomplete jobacct plugin detected only got %d out of %d'',
        Error ''cannot resolve job accounting plugin operations'', PlugrackDestroy 1,
        Unlock]\<rparr>"

section \<open>Properties of the timers\<close>

lemma sint_long_of_int: "in_long x \<Longrightarrow> sint (word_of_int x :: long) = x"
  unfolding in_long_def by (simp add: signed_take_bit_int_eq_self sint_sbintrunc')

lemma delta_word_exact:
  "(tv_sec tv2 - tv_sec tv1) * 1000000 + tv_usec tv2 - tv_usec tv1
     = (word_of_int (exact_usec tv1 tv2) :: long)"
  by (simp add: exact_usec_def)

lemma timer_diff_delta:
  "out_delta_t (slurm_timer_diff_tv_str n tv1 tv2 s len from limit)
     = word_of_int (exact_usec tv1 tv2)"
  unfolding delta_word_exact [symmetric]
  by (simp add: slurm_timer_diff_tv_str_def Let_def split: option.split)

lemma timer_diff_str:
  "out_tv_str (slurm_timer_diff_tv_str n tv1 tv2 s len from limit)
     = snprintf s len (''usec='' @ fmt_ld (word_of_int (exact_usec tv1 tv2)))"
  unfolding delta_word_exact [symmetric]
  by (simp add: slurm_timer_diff_tv_str_def Let_def split: option.split)

lemma diff_delta:
  "out_delta_t (slurm_diff_tv_str tv1 tv2 s len from limit)
     = word_of_int (exact_usec tv1 tv2)"
  unfolding delta_word_exact [symmetric]
  by (simp add: slurm_diff_tv_str_def Let_def split: option.split)

lemma diff_str:
  "out_tv_str (slurm_diff_tv_str tv1 tv2 s len from limit)
     = snprintf s len (''usec='' @ fmt_ld (word_of_int (exact_usec tv1 tv2)))"
  unfolding delta_word_exact [symmetric]
  by (simp add: slurm_diff_tv_str_def Let_def split: option.split)

subsection \<open>Claims about the timers\<close>

text \<open>
  Claim C10, as amended. When the clock cannot be read, \<open>slurm_timer_delta_tv\<close> and
  \<open>slurm_delta_tv\<close> return 1 and leave \<open>*tv\<close> as it is, whatever \<open>tv_sec\<close> is. When
  the clock is read and \<open>tv_sec\<close> is 0, they store the current time into \<open>*tv\<close> and
  return 0. An elapsed time is computed only when the clock is read and \<open>tv_sec\<close> is not
  0, and then \<open>*tv\<close> is left as it is.
\<close>

theorem slurm_delta_tv_cases:
  "(rc \<noteq> 0 \<longrightarrow>
      slurm_timer_delta_tv (rc, ts) tv = (1, tv) \<and> slurm_delta_tv (rc, now) tv = (1, tv)) \<and>
   (rc = 0 \<and> tv_sec tv = 0 \<longrightarrow>
      slurm_timer_delta_tv (rc, ts) tv
        = (0, tv\<lparr>tv_sec := ts_sec ts, tv_usec := long_sdiv (tv_nsec ts) 1000\<rparr>) \<and>
      slurm_delta_tv (rc, now) tv = (0, tv\<lparr>tv_sec := tv_sec now, tv_usec := tv_usec now\<rparr>)) \<and>
   (rc = 0 \<and> tv_sec tv \<noteq> 0 \<longrightarrow>
      snd (slurm_timer_delta_tv (rc, ts) tv) = tv \<and> snd (slurm_delta_tv (rc, now) tv) = tv \<and>
      fst (slurm_timer_delta_tv (rc, ts) tv)
        = ucast ((scast (ucast ((ts_sec ts - tv_sec tv) * 1000000) :: cint) :: long)
                 + (long_sdiv (tv_nsec ts) 1000 - tv_usec tv)) \<and>
      fst (slurm_delta_tv (rc, now) tv)
        = ucast ((scast (ucast ((tv_sec now - tv_sec tv) * 1000000) :: cint) :: long)
                 + (tv_usec now - tv_usec tv)))"
  by (simp add: slurm_timer_delta_tv_def slurm_delta_tv_def slurm_timer_gettime_def Let_def)

theorem slurm_delta_tv_cases_witness:
  "slurm_timer_delta_tv (0, \<lparr>ts_sec = 7, tv_nsec = 5000\<rparr>) \<lparr>tv_sec = 0, tv_usec = 3\<rparr>
     = (0, \<lparr>tv_sec = 7, tv_usec = 5\<rparr>) \<and>
   slurm_delta_tv (0, \<lparr>tv_sec = 7, tv_usec = 5\<rparr>) \<lparr>tv_sec = 0, tv_usec = 3\<rparr>
     = (0, \<lparr>tv_sec = 7, tv_usec = 5\<rparr>) \<and>
   slurm_timer_delta_tv (- 1, \<lparr>ts_sec = 7, tv_nsec = 5000\<rparr>) \<lparr>tv_sec = 0, tv_usec = 3\<rparr>
     = (1, \<lparr>tv_sec = 0, tv_usec = 3\<rparr>) \<and>
   fst (slurm_timer_delta_tv (0, \<lparr>ts_sec = 9, tv_nsec = 5000\<rparr>) \<lparr>tv_sec = 2, tv_usec = 3\<rparr>)
     = 7000002"
  using slurm_delta_tv_cases [of 0 "\<lparr>ts_sec = 7, tv_nsec = 5000\<rparr>" "\<lparr>tv_sec = 0, tv_usec = 3\<rparr>"
          "\<lparr>tv_sec = 7, tv_usec = 5\<rparr>"]
        slurm_delta_tv_cases [of "- 1" "\<lparr>ts_sec = 7, tv_nsec = 5000\<rparr>" "\<lparr>tv_sec = 0, tv_usec = 3\<rparr>"
          "\<lparr>tv_sec = 7, tv_usec = 5\<rparr>"]
        slurm_delta_tv_cases [of 0 "\<lparr>ts_sec = 9, tv_nsec = 5000\<rparr>" "\<lparr>tv_sec = 2, tv_usec = 3\<rparr>"
          "\<lparr>tv_sec = 7, tv_usec = 5\<rparr>"]
  by (simp add: long_sdiv_def signed_divide_int_def)

text \<open>
  Claim C10 as stated fails when the clock cannot be read: with \<open>tv_sec = 0\<close> both
  functions return 1, not 0, and store nothing.
\<close>

theorem slurm_delta_tv_zero_sec_counterexample:
  "slurm_timer_delta_tv (- 1, \<lparr>ts_sec = 7, tv_nsec = 5000\<rparr>) \<lparr>tv_sec = 0, tv_usec = 3\<rparr>
     = (1, \<lparr>tv_sec = 0, tv_usec = 3\<rparr>) \<and>
   slurm_delta_tv (- 1, \<lparr>tv_sec = 7, tv_usec = 5\<rparr>) \<lparr>tv_sec = 0, tv_usec = 3\<rparr>
     = (1, \<lparr>tv_sec = 0, tv_usec = 3\<rparr>)"
  by (simp add: slurm_timer_delta_tv_def slurm_delta_tv_def slurm_timer_gettime_def)

text \<open>
  Claim C9, as amended. When no step of the computation leaves the range of \<open>long\<close>,
  \<open>slurm_timer_diff_tv_str\<close> and \<open>slurm_diff_tv_str\<close> set \<open>*delta_t\<close> to exactly
  \<open>(tv2.tv_sec - tv1.tv_sec) * 1000000 + tv2.tv_usec - tv1.tv_usec\<close>, and \<open>tv_str\<close>
  receives the first \<open>len_tv_str - 1\<close> characters of \<open>usec=\<close> followed by that value in
  decimal (nothing when \<open>len_tv_str\<close> is 0). Neither depends on \<open>from\<close> or \<open>limit\<close>.
\<close>

theorem slurm_timer_diff_tv_str_exact:
  assumes "no_overflow tv1 tv2"
  shows "sint (out_delta_t (slurm_timer_diff_tv_str n tv1 tv2 s len from limit)) = exact_usec tv1 tv2 \<and>
         out_tv_str (slurm_timer_diff_tv_str n tv1 tv2 s len from limit)
           = (if len = 0 then s else take (len - 1) (''usec='' @ dec_of_int (exact_usec tv1 tv2))) \<and>
         sint (out_delta_t (slurm_diff_tv_str tv1 tv2 s len from limit)) = exact_usec tv1 tv2 \<and>
         out_tv_str (slurm_diff_tv_str tv1 tv2 s len from limit)
           = (if len = 0 then s else take (len - 1) (''usec='' @ dec_of_int (exact_usec tv1 tv2))) \<and>
         out_delta_t (slurm_timer_diff_tv_str n tv1 tv2 s len from limit)
           = out_delta_t (slurm_timer_diff_tv_str n' tv1 tv2 s len from' limit') \<and>
         out_tv_str (slurm_timer_diff_tv_str n tv1 tv2 s len from limit)
           = out_tv_str (slurm_timer_diff_tv_str n' tv1 tv2 s len from' limit')"
proof -
  from assms have r: "in_long (exact_usec tv1 tv2)"
    by (simp add: no_overflow_def)
  show ?thesis
    by (simp add: timer_diff_delta timer_diff_str diff_delta diff_str snprintf_def fmt_ld_def
        sint_long_of_int [OF r])
qed

theorem slurm_timer_diff_tv_str_exact_witness:
  "no_overflow \<lparr>tv_sec = 10, tv_usec = 999000\<rparr> \<lparr>tv_sec = 12, tv_usec = 500\<rparr> \<and>
   sint (out_delta_t (slurm_timer_diff_tv_str 0 \<lparr>tv_sec = 10, tv_usec = 999000\<rparr>
            \<lparr>tv_sec = 12, tv_usec = 500\<rparr> [] 20 (Some ''fn'') 0)) = 1001500 \<and>
   out_tv_str (slurm_timer_diff_tv_str 0 \<lparr>tv_sec = 10, tv_usec = 999000\<rparr>
            \<lparr>tv_sec = 12, tv_usec = 500\<rparr> [] 20 (Some ''fn'') 0) = ''usec=1001500''"
proof -
  have h: "no_overflow \<lparr>tv_sec = 10, tv_usec = 999000\<rparr> \<lparr>tv_sec = 12, tv_usec = 500\<rparr>"
    by (simp add: no_overflow_def in_long_def exact_usec_def)
  have e: "exact_usec \<lparr>tv_sec = 10, tv_usec = 999000\<rparr> \<lparr>tv_sec = 12, tv_usec = 500\<rparr> = 1001500"
    by (simp add: exact_usec_def)
  have t: "dec_of_int 1001500 = ''1001500''"
    by (simp add: dec_of_int_def dec_digits.simps)
  show ?thesis
    using h slurm_timer_diff_tv_str_exact [OF h, of 0 "[]" 20 "Some ''fn''" 0 0 "Some ''fn''" 0]
    by (simp add: e t)
qed

text \<open>
  Claim C9 as stated fails in two ways. With the 20-byte buffer of \<open>DEF_TIMERS\<close> a
  difference of \<open>10^14\<close> microseconds is cut to 19 characters; and the product wraps
  around for a difference of \<open>2^62\<close> seconds, where \<open>*delta_t\<close> becomes 0.
\<close>

theorem slurm_timer_diff_tv_str_counterexample:
  "out_tv_str (slurm_timer_diff_tv_str 0 \<lparr>tv_sec = 1, tv_usec = 0\<rparr>
       \<lparr>tv_sec = 100000001, tv_usec = 0\<rparr> [] 20 None 0)
     \<noteq> ''usec='' @ dec_of_int ((100000001 - 1) * 1000000 + 0 - 0) \<and>
   sint (out_delta_t (slurm_timer_diff_tv_str 0 \<lparr>tv_sec = 0, tv_usec = 0\<rparr>
       \<lparr>tv_sec = 4611686018427387904, tv_usec = 0\<rparr> [] 20 None 0))
     \<noteq> (4611686018427387904 - 0) * 1000000 + 0 - 0"
  by (simp add: timer_diff_delta timer_diff_str snprintf_def fmt_ld_def dec_of_int_def
      dec_digits.simps exact_usec_def)

section \<open>Properties of the job accounting interface\<close>

subsection \<open>Entry points that do not initialize, called without a context\<close>

lemmas lock_simps = slurm_mutex_lock_def slurm_mutex_unlock_def log_event_def

lemma jobacct_g_free_no_context:
  "g_jobacct_context s = None \<Longrightarrow> \<not> g_jobacct_context_lock s \<Longrightarrow>
   jobacct_g_free e jobacct s = Some (SLURM_SUCCESS, idle s)"
  by (simp add: jobacct_g_free_def lock_simps idle_def)

lemma jobacct_g_setinfo_no_context:
  "g_jobacct_context s = None \<Longrightarrow> \<not> g_jobacct_context_lock s \<Longrightarrow>
   jobacct_g_setinfo e jobacct t data s = Some (SLURM_SUCCESS, idle s)"
  by (simp add: jobacct_g_setinfo_def lock_simps idle_def)

lemma jobacct_g_getinfo_no_context:
  "g_jobacct_context s = None \<Longrightarrow> \<not> g_jobacct_context_lock s \<Longrightarrow>
   jobacct_g_getinfo e jobacct t data s = Some (SLURM_SUCCESS, idle s)"
  by (simp add: jobacct_g_getinfo_def lock_simps idle_def)

lemma jobacct_g_unpack_no_context:
  "g_jobacct_context s = None \<Longrightarrow> \<not> g_jobacct_context_lock s \<Longrightarrow>
   jobacct_g_unpack e jobacct buffer s = Some (SLURM_SUCCESS, idle s)"
  by (simp add: jobacct_g_unpack_def lock_simps idle_def)

lemma jobacct_g_job_start_slurmctld_no_context:
  "g_jobacct_context s = None \<Longrightarrow> \<not> g_jobacct_context_lock s \<Longrightarrow>
   jobacct_g_job_start_slurmctld e j s = Some (SLURM_SUCCESS, idle s)"
  by (simp add: jobacct_g_job_start_slurmctld_def lock_simps idle_def)

lemma jobacct_g_job_complete_slurmctld_no_context:
  "g_jobacct_context s = None \<Longrightarrow> \<not> g_jobacct_context_lock s \<Longrightarrow>
   jobacct_g_job_complete_slurmctld e j s = Some (SLURM_SUCCESS, idle s)"
  by (simp add: jobacct_g_job_complete_slurmctld_def lock_simps idle_def)

lemma jobacct_g_step_start_slurmctld_no_context:
  "g_jobacct_context s = None \<Longrightarrow> \<not> g_jobacct_context_lock s \<Longrightarrow>
   jobacct_g_step_start_slurmctld e j s = Some (SLURM_SUCCESS, idle s)"
  by (simp add: jobacct_g_step_start_slurmctld_def lock_simps idle_def)

lemma jobacct_g_step_complete_slurmctld_no_context:
  "g_jobacct_context s = None \<Longrightarrow> \<not> g_jobacct_context_lock s \<Longrightarrow>
   jobacct_g_step_complete_slurmctld e j s = Some (SLURM_SUCCESS, idle s)"
  by (simp add: jobacct_g_step_complete_slurmctld_def lock_simps idle_def)

lemma jobacct_g_suspend_slurmctld_no_context:
  "g_jobacct_context s = None \<Longrightarrow> \<not> g_jobacct_context_lock s \<Longrightarrow>
   jobacct_g_suspend_slurmctld e j s = Some (SLURM_SUCCESS, idle s)"
  by (simp add: jobacct_g_suspend_slurmctld_def lock_simps idle_def)

lemma jobacct_g_endpoll_no_context:
  "g_jobacct_context s = None \<Longrightarrow> \<not> g_jobacct_context_lock s \<Longrightarrow>
   jobacct_g_endpoll e j s = Some (SLURM_SUCCESS, idle s)"
  by (simp add: jobacct_g_endpoll_def lock_simps idle_def)

lemma jobacct_g_aggregate_no_context:
  "g_jobacct_context s = None \<Longrightarrow> \<not> g_jobacct_context_lock s \<Longrightarrow>
   jobacct_g_aggregate e dest from s = Some (idle s)"
  by (simp add: jobacct_g_aggregate_def lock_simps idle_def)

lemma jobacct_g_pack_no_context:
  "g_jobacct_context s = None \<Longrightarrow> \<not> g_jobacct_context_lock s \<Longrightarrow>
   jobacct_g_pack e jobacct buffer s = Some (idle s)"
  by (simp add: jobacct_g_pack_def lock_simps idle_def)

lemma jobacct_g_suspendpoll_no_context:
  "g_jobacct_context s = None \<Longrightarrow> \<not> g_jobacct_context_lock s \<Longrightarrow>
   jobacct_g_suspendpoll e s = Some (idle s)"
  by (simp add: jobacct_g_suspendpoll_def lock_simps idle_def)

lemma jobacct_g_fini_slurmctld_no_context:
  "g_jobacct_context s = None \<Longrightarrow> \<not> g_jobacct_context_lock s \<Longrightarrow>
   jobacct_g_fini_slurmctld e s = Some (SLURM_SUCCESS, idle s)"
  by (simp add: jobacct_g_fini_slurmctld_def slurm_jobacct_fini_def lock_simps idle_def
      SLURM_SUCCESS_def)

subsection \<open>Claims about calls made without a context\<close>

text \<open>
  Claim C1, as amended. Called while no context exists, \<open>jobacct_g_free\<close>,
  \<open>jobacct_g_setinfo\<close>, \<open>jobacct_g_getinfo\<close> and \<open>jobacct_g_unpack\<close> return
  \<open>SLURM_SUCCESS\<close>; they call no backend operation and do not try to initialize: all
  they do is take and release the lock.
\<close>

theorem record_calls_without_context_succeed:
  "g_jobacct_context s = None \<Longrightarrow> \<not> g_jobacct_context_lock s \<Longrightarrow>
   jobacct_g_free e jobacct s = Some (SLURM_SUCCESS, idle s) \<and>
   jobacct_g_setinfo e jobacct t data s = Some (SLURM_SUCCESS, idle s) \<and>
   jobacct_g_getinfo e jobacct t data s = Some (SLURM_SUCCESS, idle s) \<and>
   jobacct_g_unpack e jobacct buffer s = Some (SLURM_SUCCESS, idle s)"
  by (simp add: jobacct_g_free_no_context jobacct_g_setinfo_no_context
      jobacct_g_getinfo_no_context jobacct_g_unpack_no_context)

theorem record_calls_without_context_succeed_witness:
  "g_jobacct_context s_start = None \<and> \<not> g_jobacct_context_lock s_start \<and>
   jobacct_g_free env_ok None s_start = Some (0, s_start\<lparr>trace := [Lock, Unlock]\<rparr>) \<and>
   jobacct_g_setinfo env_ok None 0 None s_start = Some (0, s_start\<lparr>trace := [Lock, Unlock]\<rparr>) \<and>
   jobacct_g_getinfo env_ok None 0 None s_start = Some (0, s_start\<lparr>trace := [Lock, Unlock]\<rparr>) \<and>
   jobacct_g_unpack env_ok None None s_start = Some (0, s_start\<lparr>trace := [Lock, Unlock]\<rparr>)"
  using record_calls_without_context_succeed [of s_start env_ok None 0 None None]
  by (simp add: s_start_def idle_def SLURM_SUCCESS_def)

text \<open>
  Claim C1 as stated fails: at the start of the process, with no context, the four calls
  return \<open>SLURM_SUCCESS\<close>, which is not an error status.
\<close>

theorem record_calls_without_context_counterexample:
  "g_jobacct_context s_start = None \<and>
   map_option fst (jobacct_g_free env_ok None s_start) = Some SLURM_SUCCESS \<and>
   map_option fst (jobacct_g_setinfo env_ok None 0 None s_start) = Some SLURM_SUCCESS \<and>
   map_option fst (jobacct_g_getinfo env_ok None 0 None s_start) = Some SLURM_SUCCESS \<and>
   map_option fst (jobacct_g_unpack env_ok None None s_start) = Some SLURM_SUCCESS \<and>
   SLURM_SUCCESS \<noteq> SLURM_ERROR \<and> \<not> SLURM_SUCCESS < 0"
  by (simp add: jobacct_g_free_def jobacct_g_setinfo_def jobacct_g_getinfo_def
      jobacct_g_unpack_def lock_simps s_start_def SLURM_SUCCESS_def SLURM_ERROR_def)

text \<open>
  Claim C6. Called while no context exists, each lifecycle notification (job start, job
  complete, step start, step complete, suspend) returns \<open>SLURM_SUCCESS\<close> and calls no
  backend operation: the only calls it makes are the lock and the unlock.
\<close>

theorem notifications_without_context_are_noops:
  "g_jobacct_context s = None \<Longrightarrow> \<not> g_jobacct_context_lock s \<Longrightarrow>
   jobacct_g_job_start_slurmctld e job_ptr s = Some (SLURM_SUCCESS, idle s) \<and>
   jobacct_g_job_complete_slurmctld e job_ptr s = Some (SLURM_SUCCESS, idle s) \<and>
   jobacct_g_step_start_slurmctld e step_ptr s = Some (SLURM_SUCCESS, idle s) \<and>
   jobacct_g_step_complete_slurmctld e step_ptr s = Some (SLURM_SUCCESS, idle s) \<and>
   jobacct_g_suspend_slurmctld e job_ptr s = Some (SLURM_SUCCESS, idle s) \<and>
   (\<forall>f args. Call f args \<notin> set (new_events s (idle s)))"
  by (simp add: jobacct_g_job_start_slurmctld_no_context
      jobacct_g_job_complete_slurmctld_no_context jobacct_g_step_start_slurmctld_no_context
      jobacct_g_step_complete_slurmctld_no_context jobacct_g_suspend_slurmctld_no_context
      new_events_def idle_def)

theorem notifications_without_context_are_noops_witness:
  "g_jobacct_context s_start = None \<and> \<not> g_jobacct_context_lock s_start \<and>
   jobacct_g_job_start_slurmctld env_ok (Some 40) s_start
     = Some (0, s_start\<lparr>trace := [Lock, Unlock]\<rparr>) \<and>
   jobacct_g_suspend_slurmctld env_ok (Some 40) s_start
     = Some (0, s_start\<lparr>trace := [Lock, Unlock]\<rparr>)"
  using notifications_without_context_are_noops [of s_start env_ok "Some 40" "Some 41"]
  by (simp add: s_start_def idle_def SLURM_SUCCESS_def)

subsection \<open>The heap and the paths of initialization\<close>

lemma foldr_max_ge: "a \<in> set xs \<Longrightarrow> a \<le> foldr max xs (0::nat)"
  by (induction xs) auto

lemma fresh_gt: "a \<in> fst ` set h \<Longrightarrow> a < fresh h"
  unfolding fresh_def using foldr_max_ge [of a "map fst h"] by simp

lemma fresh_notin [simp]: "fresh h \<notin> fst ` set h"
  using fresh_gt [of "fresh h" h] by auto

lemma map_of_fresh [simp]: "map_of h (fresh h) = None"
  by (simp add: map_of_eq_None_iff)

lemma map_of_Some_fresh [simp]: "map_of h a = Some v \<Longrightarrow> fresh h \<noteq> a"
  by (cases "a = fresh h") simp_all

lemma map_of_Some_fresh' [simp]: "map_of h a = Some v \<Longrightarrow> a \<noteq> fresh h"
  by (cases "a = fresh h") simp_all

lemma fresh_cons_neq [simp]: "fresh ((a, v) # h) \<noteq> a" "a \<noteq> fresh ((a, v) # h)"
  using fresh_gt [of a "(a, v) # h"] by simp_all

lemma fresh_cons2_neq [simp]: "fresh (p # (a, v) # h) \<noteq> a" "a \<noteq> fresh (p # (a, v) # h)"
  using fresh_gt [of a "p # (a, v) # h"] by simp_all

lemma fresh_cons3_neq [simp]: "fresh (p # q # (a, v) # h) \<noteq> a" "a \<noteq> fresh (p # q # (a, v) # h)"
  using fresh_gt [of a "p # q # (a, v) # h"] by simp_all

lemma delete_fresh [simp]: "AList.delete (fresh h) h = h"
  by simp

lemmas heap_simps = xmalloc_def xfree_def str_at_def ctx_at_def ctx_upd_def xstrdup_def

lemma create_null:
  "slurm_jobacct_context_create None s
     = Some (None, log_event (Error ''_slurm_jobacct_context_create: no jobacct type'') s)"
  by (simp add: slurm_jobacct_context_create_def)

lemma create_some:
  "str_at s (Some p) = Some t \<Longrightarrow>
   slurm_jobacct_context_create (Some p) s
     = Some (Some (fresh (heap s)),
         s\<lparr>heap := (fresh ((fresh (heap s), Ctx zero_context) # heap s), Str t)
              # (fresh (heap s),
                 Ctx (zero_context\<lparr>jobacct_type :=
                        Some (fresh ((fresh (heap s), Ctx zero_context) # heap s))\<rparr>))
              # heap s\<rparr>)"
  by (simp add: slurm_jobacct_context_create_def heap_simps Let_def zero_context_def
      SLURM_SUCCESS_def split: option.splits obj.splits)

lemma length_syms: "length syms = 18"
  by (simp add: syms_def)

lemma get_syms_eq:
  "plugin_get_syms e plug (length syms) syms = (resolved_count e plug, map (dlsym e plug) syms)"
  by (simp add: plugin_get_syms_def resolved_count_def)

lemma fresh_notin_tail1: "fresh (p # h) \<notin> fst ` set h"
  using fresh_gt [of "fresh (p # h)" "p # h"] by auto

lemma fresh_notin_tail2: "fresh (p # q # h) \<notin> fst ` set h"
  using fresh_gt [of "fresh (p # q # h)" "p # q # h"] by auto

lemma fresh_notin_tail3: "fresh (p # q # r # h) \<notin> fst ` set h"
  using fresh_gt [of "fresh (p # q # r # h)" "p # q # r # h"] by auto

lemma delete_fresh_tail [simp]:
  "AList.delete (fresh (p # h)) h = h"
  "AList.delete (fresh (p # q # h)) h = h"
  "AList.delete (fresh (p # q # r # h)) h = h"
  by (simp_all add: fresh_notin_tail1 fresh_notin_tail2 fresh_notin_tail3)

lemmas init_simps = slurm_jobacct_init_def lock_simps call_slurm_get_jobacct_type_def
  slurm_jobacct_context_create_def slurm_jobacct_get_ops_def slurm_jobacct_get_ops_find_def
  call_slurm_get_plugin_dir_def slurm_jobacct_context_destroy_def get_syms_eq
  heap_simps Let_def zero_context_def SLURM_SUCCESS_def SLURM_ERROR_def

lemma init_no_rack:
  "slurm_get_jobacct_type e = Some ty \<Longrightarrow> plugrack_create e = None \<Longrightarrow>
   slurm_jobacct_init e
      \<lparr>heap = h, g_jobacct_context = None, g_jobacct_context_lock = False, trace = tr\<rparr>
     = Some (- 1, \<lparr>heap = h, g_jobacct_context = None, g_jobacct_context_lock = False,
         trace = tr @
          [Lock, GetJobacctType, PlugrackCreate, Error ''Unable to create a plugin manager'',
           Error ''cannot resolve job accounting plugin operations'', Unlock]\<rparr>)"
  by (simp add: init_simps)


lemma init_has_context:
  "slurm_jobacct_init e
      \<lparr>heap = h, g_jobacct_context = Some c, g_jobacct_context_lock = False, trace = tr\<rparr>
     = Some (0, \<lparr>heap = h, g_jobacct_context = Some c, g_jobacct_context_lock = False,
         trace = tr @ [Lock, Unlock]\<rparr>)"
  by (simp add: init_simps)

lemma init_no_type:
  "slurm_get_jobacct_type e = None \<Longrightarrow>
   slurm_jobacct_init e
      \<lparr>heap = h, g_jobacct_context = None, g_jobacct_context_lock = False, trace = tr\<rparr>
     = Some (- 1, \<lparr>heap = h, g_jobacct_context = None, g_jobacct_context_lock = False,
         trace = tr @
          [Lock, GetJobacctType, Error ''_slurm_jobacct_context_create: no jobacct type'',
           Error ''cannot create a context for %s'', Unlock]\<rparr>)"
  by (simp add: init_simps)

lemma init_no_plugin:
  "slurm_get_jobacct_type e = Some ty \<Longrightarrow> plugrack_create e = Some r \<Longrightarrow>
   plugrack_use_by_type e r ty = None \<Longrightarrow>
   c = fresh ((fresh h, Str ty) # h) \<Longrightarrow>
   a = fresh ((c, Ctx zero_context) # (fresh h, Str ty) # h) \<Longrightarrow>
   slurm_jobacct_init e
      \<lparr>heap = h, g_jobacct_context = None, g_jobacct_context_lock = False, trace = tr\<rparr>
     = Some (- 1,
        \<lparr>heap = (if plugrack_destroy e r = 0 then h
                 else (a, Str ty) #
                      (c, Ctx (zero_context\<lparr>jobacct_type := Some a, plugin_list := Some r\<rparr>)) # h),
         g_jobacct_context = None, g_jobacct_context_lock = False,
         trace = tr @
          [Lock, GetJobacctType, PlugrackCreate, PlugrackSetMajorType r ''jobacct'',
           PlugrackSetParanoia r, GetPluginDir, PlugrackReadDir r (slurm_get_plugin_dir e),
           PlugrackUseByType r ty, Error ''can't find a plugin for type %s'',
           Error ''cannot resolve job accounting plugin operations'', PlugrackDestroy r,
           Unlock]\<rparr>)"
  by (simp add: init_simps split: option.split)

lemma init_incomplete:
  "slurm_get_jobacct_type e = Some ty \<Longrightarrow> plugrack_create e = Some r \<Longrightarrow>
   plugrack_use_by_type e r ty = Some plug \<Longrightarrow> resolved_count e plug < length syms \<Longrightarrow>
   c = fresh ((fresh h, Str ty) # h) \<Longrightarrow>
   a = fresh ((c, Ctx zero_context) # (fresh h, Str ty) # h) \<Longrightarrow>
   slurm_jobacct_init e
      \<lparr>heap = h, g_jobacct_context = None, g_jobacct_context_lock = False, trace = tr\<rparr>
     = Some (- 1,
        \<lparr>heap = (if plugrack_destroy e r = 0 then h
                 else (a, Str ty) #
                      (c, Ctx (zero_context\<lparr>jobacct_type := Some a, plugin_list := Some r,
                            cur_plugin := Some plug,
                            ops := ops_of_ptrs (map (dlsym e plug) syms)\<rparr>)) # h),
         g_jobacct_context = None, g_jobacct_context_lock = False,
         trace = tr @
          [Lock, GetJobacctType, PlugrackCreate, PlugrackSetMajorType r ''jobacct'',
           PlugrackSetParanoia r, GetPluginDir, PlugrackReadDir r (slurm_get_plugin_dir e),
           PlugrackUseByType r ty, PluginGetSyms plug (length syms),
           Error ''incomplete jobacct plugin detected only got %d out of %d'',
           Error ''cannot resolve job accounting plugin operations'', PlugrackDestroy r,
           Unlock]\<rparr>)"
  by (simp add: init_simps split: option.split)

lemma init_success:
  "slurm_get_jobacct_type e = Some ty \<Longrightarrow> plugrack_create e = Some r \<Longrightarrow>
   plugrack_use_by_type e r ty = Some plug \<Longrightarrow> \<not> resolved_count e plug < length syms \<Longrightarrow>
   c = fresh ((fresh h, Str ty) # h) \<Longrightarrow>
   a = fresh ((c, Ctx zero_context) # (fresh h, Str ty) # h) \<Longrightarrow>
   slurm_jobacct_init e
      \<lparr>heap = h, g_jobacct_context = None, g_jobacct_context_lock = False, trace = tr\<rparr>
     = Some (0,
        \<lparr>heap = (a, Str ty) #
                 (c, Ctx (zero_context\<lparr>jobacct_type := Some a, plugin_list := Some r,
                            cur_plugin := Some plug,
                            ops := ops_of_ptrs (map (dlsym e plug) syms)\<rparr>)) # h,
         g_jobacct_context = Some c, g_jobacct_context_lock = False,
         trace = tr @
          [Lock, GetJobacctType, PlugrackCreate, PlugrackSetMajorType r ''jobacct'',
           PlugrackSetParanoia r, GetPluginDir, PlugrackReadDir r (slurm_get_plugin_dir e),
           PlugrackUseByType r ty, PluginGetSyms plug (length syms), Unlock]\<rparr>)"
  by (simp add: init_simps split: option.split)

lemma destroy_no_rack:
  "ctx_at s c = Some x \<Longrightarrow> plugin_list x = None \<Longrightarrow>
   slurm_jobacct_context_destroy e c s
     = Some (SLURM_SUCCESS, xfree (Some c) (xfree (jobacct_type x) s))"
  by (simp add: slurm_jobacct_context_destroy_def)

lemma destroy_rack:
  "ctx_at s c = Some x \<Longrightarrow> plugin_list x = Some r \<Longrightarrow>
   slurm_jobacct_context_destroy e c s
     = (if plugrack_destroy e r \<noteq> SLURM_SUCCESS
        then Some (SLURM_ERROR, log_event (PlugrackDestroy r) s)
        else Some (SLURM_SUCCESS,
               xfree (Some c) (xfree (jobacct_type x) (log_event (PlugrackDestroy r) s))))"
  by (simp add: slurm_jobacct_context_destroy_def Let_def)

subsection \<open>Claims about the creation and the destruction of a context\<close>

text \<open>
  Claim C7, as amended. \<open>_slurm_jobacct_context_create\<close> returns no context when the
  type name is unset (a NULL pointer). For a pointer to a string, the empty string
  included, it returns a context that stores a copy of the string in a newly allocated
  block: the copy is not at the caller's address, the caller's string is untouched, and
  the copy stays when the caller's string is freed.
\<close>

theorem context_create_copies_type:
  "slurm_jobacct_context_create None s
     = Some (None, log_event (Error ''_slurm_jobacct_context_create: no jobacct type'') s) \<and>
   (str_at s (Some p) = Some t \<longrightarrow>
      (\<exists>c a s'. slurm_jobacct_context_create (Some p) s = Some (Some c, s') \<and>
         ctx_at s' c = Some (zero_context\<lparr>jobacct_type := Some a\<rparr>) \<and>
         str_at s' (Some a) = Some t \<and> a \<noteq> p \<and> map_of (heap s) a = None \<and>
         str_at s' (Some p) = Some t \<and>
         str_at (xfree (Some p) s') (Some a) = Some t))"
proof (intro conjI impI)
  show "slurm_jobacct_context_create None s
     = Some (None, log_event (Error ''_slurm_jobacct_context_create: no jobacct type'') s)"
    by (rule create_null)
next
  assume t: "str_at s (Some p) = Some t"
  define c where "c = fresh (heap s)"
  define a where "a = fresh ((c, Ctx zero_context) # heap s)"
  from t have p: "map_of (heap s) p = Some (Str t)"
    by (simp add: str_at_def split: option.splits obj.splits)
  from p have pin: "p \<in> fst ` set (heap s)"
    by (auto dest!: map_of_SomeD intro: rev_image_eqI)
  have ap: "a \<noteq> p"
    unfolding a_def using fresh_gt [of p "(c, Ctx zero_context) # heap s"] pin by auto
  have cp: "c \<noteq> p"
    unfolding c_def using p by simp
  have ac: "a \<noteq> c"
    unfolding a_def by simp
  have an: "map_of (heap s) a = None"
    unfolding a_def by (simp add: map_of_eq_None_iff fresh_notin_tail1)
  let ?s' = "s\<lparr>heap := (a, Str t) # (c, Ctx (zero_context\<lparr>jobacct_type := Some a\<rparr>)) # heap s\<rparr>"
  have cr: "slurm_jobacct_context_create (Some p) s = Some (Some c, ?s')"
    using create_some [OF t] by (simp add: c_def a_def)
  have 1: "ctx_at ?s' c = Some (zero_context\<lparr>jobacct_type := Some a\<rparr>)"
    using ac by (simp add: ctx_at_def)
  have 2: "str_at ?s' (Some a) = Some t"
    by (simp add: str_at_def)
  have 3: "str_at ?s' (Some p) = Some t"
    using ap cp p by (simp add: str_at_def)
  have 4: "str_at (xfree (Some p) ?s') (Some a) = Some t"
    using ap cp by (simp add: str_at_def xfree_def)
  show "\<exists>c a s'. slurm_jobacct_context_create (Some p) s = Some (Some c, s') \<and>
         ctx_at s' c = Some (zero_context\<lparr>jobacct_type := Some a\<rparr>) \<and>
         str_at s' (Some a) = Some t \<and> a \<noteq> p \<and> map_of (heap s) a = None \<and>
         str_at s' (Some p) = Some t \<and>
         str_at (xfree (Some p) s') (Some a) = Some t"
    using cr 1 2 3 4 ap an by blast
qed

theorem context_create_copies_type_witness:
  "str_at s_empty_type (Some 1) = Some [] \<and>
   (\<exists>c a s'. slurm_jobacct_context_create (Some 1) s_empty_type = Some (Some c, s') \<and>
       ctx_at s' c = Some (zero_context\<lparr>jobacct_type := Some a\<rparr>) \<and>
       str_at s' (Some a) = Some [] \<and> a \<noteq> 1 \<and>
       str_at (xfree (Some 1) s') (Some a) = Some [])"
proof -
  have h: "str_at s_empty_type (Some 1) = Some []"
    by (simp add: s_empty_type_def s_start_def str_at_def)
  from context_create_copies_type [of s_empty_type 1 "[]"] h show ?thesis
    by blast
qed

text \<open>
  Claim C7 as stated fails for an empty type name: a caller that passes the empty string
  gets a context (at address 2), not a failure.
\<close>

theorem context_create_empty_type_counterexample:
  "str_at s_empty_type (Some 1) = Some [] \<and>
   map_option fst (slurm_jobacct_context_create (Some 1) s_empty_type) = Some (Some 2)"
proof -
  have t: "str_at s_empty_type (Some 1) = Some []"
    by (simp add: s_empty_type_def s_start_def str_at_def)
  show ?thesis
    using t create_some [OF t] by (simp add: s_empty_type_def s_start_def fresh_def)
qed

text \<open>
  Claim C5, as amended. When the context has no plugin rack, or \<open>plugrack_destroy\<close>
  succeeds, \<open>_slurm_jobacct_context_destroy\<close> returns \<open>SLURM_SUCCESS\<close> and has released
  the copy of the type name and the context itself. When \<open>plugrack_destroy\<close> fails it
  returns \<open>SLURM_ERROR\<close> and releases nothing: the context is still allocated.
\<close>

theorem context_destroy_releases:
  assumes "ctx_at s c = Some x"
  shows "(plugin_list x = None \<or> plugin_list x = Some r \<and> plugrack_destroy e r = SLURM_SUCCESS \<longrightarrow>
            (\<exists>s'. slurm_jobacct_context_destroy e c s = Some (SLURM_SUCCESS, s') \<and>
               map_of (heap s') c = None \<and>
               (\<forall>a. jobacct_type x = Some a \<longrightarrow> map_of (heap s') a = None))) \<and>
         (plugin_list x = Some r \<and> plugrack_destroy e r \<noteq> SLURM_SUCCESS \<longrightarrow>
            slurm_jobacct_context_destroy e c s
              = Some (SLURM_ERROR, log_event (PlugrackDestroy r) s) \<and>
            ctx_at (log_event (PlugrackDestroy r) s) c = Some x)"
  using assms
  by (auto simp add: destroy_no_rack destroy_rack xfree_def log_event_def ctx_at_def
      delete_conv' split: option.splits)

theorem context_destroy_releases_witness:
  "ctx_at s_ready 2 = Some ctx_ready \<and>
   (\<exists>s'. slurm_jobacct_context_destroy env_ok 2 s_ready = Some (SLURM_SUCCESS, s') \<and>
      map_of (heap s') 2 = None \<and> map_of (heap s') 3 = None) \<and>
   slurm_jobacct_context_destroy env_failing 2 s_ready
     = Some (SLURM_ERROR, log_event (PlugrackDestroy 1) s_ready) \<and>
   ctx_at (log_event (PlugrackDestroy 1) s_ready) 2 = Some ctx_ready"
proof -
  have h: "ctx_at s_ready 2 = Some ctx_ready"
    by (simp add: s_ready_def ctx_at_def)
  show ?thesis
    using h context_destroy_releases [OF h, of 1 env_ok]
      context_destroy_releases [OF h, of 1 env_failing]
    by (simp add: ctx_ready_def env_ok_def env_failing_def SLURM_SUCCESS_def SLURM_ERROR_def)
qed

text \<open>
  Claim C5 as stated fails when \<open>plugrack_destroy\<close> fails: the call returns
  \<open>SLURM_ERROR\<close> and the heap is unchanged, so the context (address 2) and the copy of
  the type name (address 3) are still allocated.
\<close>

theorem context_destroy_failure_counterexample:
  "slurm_jobacct_context_destroy env_failing 2 s_ready
     = Some (SLURM_ERROR, s_ready\<lparr>trace := [PlugrackDestroy 1]\<rparr>) \<and>
   map_of (heap (s_ready\<lparr>trace := [PlugrackDestroy 1]\<rparr>)) 2 = Some (Ctx ctx_ready) \<and>
   map_of (heap (s_ready\<lparr>trace := [PlugrackDestroy 1]\<rparr>)) 3 = Some (Str ''jobacct/log'')"
  by (simp add: slurm_jobacct_context_destroy_def ctx_at_def s_ready_def ctx_ready_def
      env_failing_def env_ok_def log_event_def SLURM_SUCCESS_def SLURM_ERROR_def)

subsection \<open>Initialization from any state\<close>

lemma filter_all_of_length:
  "\<not> length (filter P xs) < length xs \<Longrightarrow> x \<in> set xs \<Longrightarrow> P x"
  using length_filter_less [of x xs P] by blast

lemma ops_resolved_of_count:
  assumes "\<not> resolved_count e plug < length syms"
  shows "ops_resolved (ops_of_ptrs (map (dlsym e plug) syms))"
proof -
  have "i < 18 \<Longrightarrow> map (dlsym e plug) syms ! i \<noteq> None" for i
    using assms filter_all_of_length [of "\<lambda>p. p \<noteq> None" "map (dlsym e plug) syms"
        "map (dlsym e plug) syms ! i"]
    unfolding resolved_count_def by (simp add: length_syms)
  then show ?thesis
    unfolding ops_resolved_def ops_of_ptrs_def by simp
qed

lemma all_under_lock_respected: "all_under_lock held es \<Longrightarrow> lock_respected held es"
  by (induction es arbitrary: held) (auto split: if_splits)

lemma all_under_lock_append:
  "all_under_lock held xs \<Longrightarrow> xs \<noteq> [] \<Longrightarrow> last xs = Unlock \<Longrightarrow> all_under_lock False ys \<Longrightarrow>
   all_under_lock held (xs @ ys)"
  by (induction xs arbitrary: held) (auto split: if_splits)

lemma init_props:
  assumes "wf_state s"
  shows "\<exists>rc s' es. slurm_jobacct_init e s = Some (rc, s') \<and> wf_state s' \<and>
           trace s' = trace s @ es \<and> (rc < 0) = (g_jobacct_context s' = None) \<and>
           es \<noteq> [] \<and> hd es = Lock \<and> last es = Unlock \<and> all_under_lock False es \<and>
           Lock \<notin> set (tl es) \<and>
           (\<forall>f args. Call f args \<notin> set es) \<and>
           (g_jobacct_context s = None \<longrightarrow>
              take 2 es = [Lock, GetJobacctType] \<and>
              (g_jobacct_context s' \<noteq> None) = backend_available e) \<and>
           (g_jobacct_context s \<noteq> None \<longrightarrow> s' = idle s)"
proof (cases s)
  case (fields h g l tr)
  with assms have l: "\<not> l"
    by (simp add: wf_state_def)
  show ?thesis
  proof (cases g)
    case (Some c)
    show ?thesis
      using assms l
      by (simp add: fields Some init_has_context wf_state_def context_ok_def ctx_at_def idle_def)
  next
    case None
    note s = fields None
    consider
      (no_type) "slurm_get_jobacct_type e = None"
    | (no_rack) ty where "slurm_get_jobacct_type e = Some ty" "plugrack_create e = None"
    | (no_plugin) ty r where "slurm_get_jobacct_type e = Some ty" "plugrack_create e = Some r"
        "plugrack_use_by_type e r ty = None"
    | (incomplete) ty r plug where "slurm_get_jobacct_type e = Some ty"
        "plugrack_create e = Some r" "plugrack_use_by_type e r ty = Some plug"
        "resolved_count e plug < length syms"
    | (complete) ty r plug where "slurm_get_jobacct_type e = Some ty"
        "plugrack_create e = Some r" "plugrack_use_by_type e r ty = Some plug"
        "\<not> resolved_count e plug < length syms"
      by (cases "slurm_get_jobacct_type e"; cases "plugrack_create e";
          cases "plugrack_use_by_type e (the (plugrack_create e)) (the (slurm_get_jobacct_type e))";
          cases "resolved_count e (the (plugrack_use_by_type e (the (plugrack_create e))
                   (the (slurm_get_jobacct_type e)))) < length syms")
        auto
    then show ?thesis
    proof cases
      case no_type
      then show ?thesis
        using l by (simp add: s init_no_type wf_state_def context_ok_def backend_available_def)
    next
      case no_rack
      then show ?thesis
        using l by (simp add: s init_no_rack wf_state_def context_ok_def backend_available_def)
    next
      case no_plugin
      then show ?thesis
        using l
        by (simp add: s init_no_plugin [OF no_plugin refl refl] wf_state_def context_ok_def
            backend_available_def)
    next
      case incomplete
      then show ?thesis
        using l
        by (simp add: s init_incomplete [OF incomplete refl refl] wf_state_def context_ok_def
            backend_available_def)
    next
      case complete
      then show ?thesis
        using l ops_resolved_of_count [OF complete(4)]
        by (simp add: s init_success [OF complete refl refl] wf_state_def context_ok_def
            backend_available_def ctx_at_def)
    qed
  qed
qed

subsection \<open>The entry points from a well-formed state\<close>

lemmas plain_defs = jobacct_g_free_def jobacct_g_setinfo_def jobacct_g_getinfo_def
  jobacct_g_aggregate_def jobacct_g_pack_def jobacct_g_unpack_def
  jobacct_g_job_start_slurmctld_def jobacct_g_job_complete_slurmctld_def
  jobacct_g_step_start_slurmctld_def jobacct_g_step_complete_slurmctld_def
  jobacct_g_suspend_slurmctld_def jobacct_g_endpoll_def jobacct_g_suspendpoll_def

lemma facade_plain:
  assumes "wf_state s" "\<not> lazy_init_call call" "call \<noteq> G_fini_slurmctld"
  shows "\<exists>s' es. facade e call s = Some s' \<and> heap s' = heap s \<and>
           g_jobacct_context s' = g_jobacct_context s \<and> \<not> g_jobacct_context_lock s' \<and>
           trace s' = trace s @ es \<and>
           (g_jobacct_context s = None \<longrightarrow> es = [Lock, Unlock]) \<and>
           (g_jobacct_context s \<noteq> None \<longrightarrow> (\<exists>f args. es = [Lock, Call f args, Unlock]))"
proof (cases s)
  case (fields h g l tr)
  show ?thesis
    using assms
    by (cases call; cases g)
      (auto simp add: fields plain_defs call_int_def call_void_def lock_simps wf_state_def
        context_ok_def ctx_at_def ops_resolved_def split: option.splits obj.splits)
qed

lemma facade_fini:
  assumes "wf_state s"
  shows "\<exists>s' es. facade e G_fini_slurmctld s = Some s' \<and>
           g_jobacct_context s' = None \<and> \<not> g_jobacct_context_lock s' \<and>
           trace s' = trace s @ es \<and> lock_respected False es \<and>
           (g_jobacct_context s = None \<longrightarrow> es = [Lock, Unlock]) \<and>
           (g_jobacct_context s \<noteq> None \<longrightarrow> (\<exists>f. take 3 es = [Lock, Call f [], Unlock]))"
proof (cases s)
  case (fields h g l tr)
  show ?thesis
    using assms
    by (cases g)
      (auto simp add: fields jobacct_g_fini_slurmctld_def slurm_jobacct_fini_def
        slurm_jobacct_context_destroy_def call_int_def lock_simps wf_state_def xfree_def
        context_ok_def ctx_at_def ops_resolved_def Let_def
        split: option.splits obj.splits)
qed


lemmas lazy_defs = jobacct_g_init_struct_def jobacct_g_alloc_def jobacct_g_init_slurmctld_def
  jobacct_g_startpoll_def

lemma take2_length: "take 2 xs = [a, b] \<Longrightarrow> 2 \<le> length xs"
  by (cases xs; cases "tl xs") auto

lemma ctx_at_trace [simp]: "ctx_at (s\<lparr>trace := t\<rparr>) c = ctx_at s c"
  by (simp add: ctx_at_def)

lemma wf_state_trace [simp]: "wf_state (s\<lparr>trace := t\<rparr>) = wf_state s"
  by (simp add: wf_state_def context_ok_def split: option.split)

lemma facade_lazy:
  assumes "wf_state s" "lazy_init_call call"
  shows "\<exists>s' es. facade e call s = Some s' \<and> wf_state s' \<and> trace s' = trace s @ es \<and>
           all_under_lock False es \<and>
           (g_jobacct_context s = None \<longrightarrow>
              take 2 es = [Lock, GetJobacctType] \<and>
              (g_jobacct_context s' \<noteq> None) = backend_available e) \<and>
           (g_jobacct_context s \<noteq> None \<longrightarrow> g_jobacct_context s' \<noteq> None) \<and>
           (g_jobacct_context s' \<noteq> None \<longrightarrow> \<not> held_across es) \<and>
           (g_jobacct_context s' = None \<longrightarrow> (\<forall>f args. Call f args \<notin> set es))"
proof -
  from init_props [OF assms(1), of e] obtain rc s1 es1 where
    p: "slurm_jobacct_init e s = Some (rc, s1) \<and> wf_state s1 \<and>
        trace s1 = trace s @ es1 \<and> (rc < 0) = (g_jobacct_context s1 = None) \<and>
        es1 \<noteq> [] \<and> hd es1 = Lock \<and> last es1 = Unlock \<and> all_under_lock False es1 \<and>
        Lock \<notin> set (tl es1) \<and>
        (\<forall>f args. Call f args \<notin> set es1) \<and>
        (g_jobacct_context s = None \<longrightarrow>
           take 2 es1 = [Lock, GetJobacctType] \<and>
           (g_jobacct_context s1 \<noteq> None) = backend_available e) \<and>
        (g_jobacct_context s \<noteq> None \<longrightarrow> s1 = idle s)"
    by (elim exE) (erule that)
  from p have i: "slurm_jobacct_init e s = Some (rc, s1)" and w1: "wf_state s1" and
    t1: "trace s1 = trace s @ es1" and rc: "(rc < 0) = (g_jobacct_context s1 = None)" and
    ne: "es1 \<noteq> []" and la: "last es1 = Unlock" and lr: "all_under_lock False es1" and
    nc: "\<forall>f args. Call f args \<notin> set es1" and
    g0: "g_jobacct_context s = None \<longrightarrow>
           take 2 es1 = [Lock, GetJobacctType] \<and>
           (g_jobacct_context s1 \<noteq> None) = backend_available e" and
    g1: "g_jobacct_context s \<noteq> None \<longrightarrow> s1 = idle s"
    by simp_all
  show ?thesis
  proof (cases "rc < 0")
    case True
    have f: "facade e call s = Some s1"
      using assms(2) True by (cases call) (simp_all add: lazy_defs i)
    from True rc have n: "g_jobacct_context s1 = None"
      by simp
    from g1 n have "g_jobacct_context s = None"
      by (auto simp add: idle_def)
    with f w1 t1 lr nc g0 n show ?thesis
      by auto
  next
    case False
    have "\<exists>f args. facade e call s = Some (s1\<lparr>trace := trace s1 @ [Lock, Call f args, Unlock]\<rparr>)"
      using assms(2) False w1 rc
      by (cases call; cases s1)
        (auto simp add: lazy_defs i call_int_def call_ptr_def lock_simps wf_state_def
          context_ok_def ctx_at_def ops_resolved_def split: option.splits obj.splits)
    then obtain f args where
      f: "facade e call s = Some (s1\<lparr>trace := trace s1 @ [Lock, Call f args, Unlock]\<rparr>)"
      by blast
    let ?es = "es1 @ [Lock, Call f args, Unlock]"
    have 1: "all_under_lock False ?es"
      using lr ne la by (intro all_under_lock_append) simp_all
    have 2: "\<not> held_across ?es"
      using ne la last_in_set [OF ne] by (simp add: held_across_def butlast_append)
    from False rc have 3: "g_jobacct_context s1 \<noteq> None"
      by simp
    have 4: "g_jobacct_context s = None \<longrightarrow> 2 \<le> length es1"
      using g0 take2_length [of es1 Lock GetJobacctType] by auto
    show ?thesis
      using f w1 t1 1 2 3 4 g0 by auto
  qed
qed

subsection \<open>Well-formed and reachable states\<close>

lemma wf_state_start: "g_jobacct_context s = None \<Longrightarrow> \<not> g_jobacct_context_lock s \<Longrightarrow> wf_state s"
  by (simp add: wf_state_def context_ok_def)

lemma wf_state_same_heap:
  assumes "wf_state s" "heap s' = heap s" "g_jobacct_context s' = g_jobacct_context s"
    "\<not> g_jobacct_context_lock s'"
  shows "wf_state s'"
proof -
  have e: "ctx_at s' = ctx_at s"
    using assms(2) by (simp add: ctx_at_def fun_eq_iff)
  from assms(1,4) show ?thesis
    unfolding wf_state_def context_ok_def assms(3) e by simp
qed

lemma new_events_append: "trace s' = trace s @ es \<Longrightarrow> new_events s s' = es"
  by (simp add: new_events_def)

lemma facade_wf:
  assumes "wf_state s"
  shows "\<exists>s'. facade e call s = Some s' \<and> wf_state s' \<and>
           lock_respected False (new_events s s')"
proof -
  consider (lazy) "lazy_init_call call" | (fini) "call = G_fini_slurmctld"
    | (plain) "\<not> lazy_init_call call" "call \<noteq> G_fini_slurmctld"
    by blast
  then show ?thesis
  proof cases
    case lazy
    from facade_lazy [OF assms lazy, of e] show ?thesis
      by (auto simp add: new_events_append dest: all_under_lock_respected)
  next
    case fini
    from facade_fini [OF assms, of e] show ?thesis
      unfolding fini by (auto simp add: new_events_append wf_state_start)
  next
    case plain
    from facade_plain [OF assms plain, of e] obtain s' es where
      p: "facade e call s = Some s' \<and> heap s' = heap s \<and>
          g_jobacct_context s' = g_jobacct_context s \<and> \<not> g_jobacct_context_lock s' \<and>
          trace s' = trace s @ es \<and>
          (g_jobacct_context s = None \<longrightarrow> es = [Lock, Unlock]) \<and>
          (g_jobacct_context s \<noteq> None \<longrightarrow> (\<exists>f args. es = [Lock, Call f args, Unlock]))"
      by (elim exE) (erule that)
    then have w: "wf_state s'"
      using wf_state_same_heap [OF assms] by blast
    from p have "lock_respected False es"
      by (cases "g_jobacct_context s") auto
    with p w show ?thesis
      by (auto simp add: new_events_append)
  qed
qed

lemma reachable_wf: "reachable s \<Longrightarrow> wf_state s"
proof (induction rule: reachable.induct)
  case (start s)
  then show ?case
    by (rule wf_state_start)
next
  case (step s e call s')
  from facade_wf [OF step.IH, of e call] step.hyps(2) show ?case
    by auto
qed

lemma full_plugin_syms:
  "map full_plugin syms
     = map Some [100, 101, 102, 103, 104, 105, 106, 107, 108, 109, 110, 111, 112, 113, 114,
         115, 116, 117]"
  by (simp add: full_plugin_def syms_def)

lemma env_ok_available: "backend_available env_ok"
  by (simp add: backend_available_def resolved_count_def env_ok_def full_plugin_syms
      length_syms)

lemma env_17_syms:
  "map (dlsym env_17 plug) syms
     = map Some [100, 101, 102, 103, 104, 105, 106, 107, 108, 109, 110, 111, 112, 113, 114,
         115, 116] @ [None]"
  by (simp add: env_17_def env_ok_def full_plugin_def syms_def)

lemma env_17_count: "resolved_count env_17 plug = 17"
  by (simp add: resolved_count_def env_17_syms)

lemma wf_state_ready: "wf_state s_ready"
  by (simp add: wf_state_def context_ok_def ctx_at_def s_ready_def ctx_ready_def ops_ready_def
      ops_resolved_def)

lemma facade_no_context:
  "g_jobacct_context s = None \<Longrightarrow> \<not> g_jobacct_context_lock s \<Longrightarrow> \<not> lazy_init_call call \<Longrightarrow>
   facade e call s = Some (idle s)"
  by (cases call)
    (simp_all add: jobacct_g_free_no_context jobacct_g_setinfo_no_context
      jobacct_g_getinfo_no_context jobacct_g_aggregate_no_context jobacct_g_pack_no_context
      jobacct_g_unpack_no_context jobacct_g_fini_slurmctld_no_context
      jobacct_g_job_start_slurmctld_no_context jobacct_g_job_complete_slurmctld_no_context
      jobacct_g_step_start_slurmctld_no_context jobacct_g_step_complete_slurmctld_no_context
      jobacct_g_suspend_slurmctld_no_context jobacct_g_endpoll_no_context
      jobacct_g_suspendpoll_no_context)

subsection \<open>Claims about initialization and teardown\<close>

text \<open>
  Claim C4, as amended. When no context exists, the four entry points that call
  \<open>_slurm_jobacct_init\<close> (\<open>jobacct_g_init_struct\<close>, \<open>jobacct_g_alloc\<close>,
  \<open>jobacct_g_init_slurmctld\<close>, \<open>jobacct_g_startpoll\<close>) attempt initialization: right
  after taking the lock they read the configured type, and a context is installed exactly
  when the environment allows it, so an initialization that failed is tried again by the
  next call of one of these four. The other fourteen entry points never attempt it: with
  no context they take and release the lock and do nothing else.
\<close>

theorem lazy_init_only_in_four_entry_points:
  assumes "g_jobacct_context s = None" "\<not> g_jobacct_context_lock s"
  shows "(lazy_init_call call \<longrightarrow>
            (\<exists>s'. facade e call s = Some s' \<and>
               take 2 (new_events s s') = [Lock, GetJobacctType] \<and>
               (g_jobacct_context s' \<noteq> None) = backend_available e)) \<and>
         (\<not> lazy_init_call call \<longrightarrow> facade e call s = Some (idle s))"
proof (intro conjI impI)
  assume l: "lazy_init_call call"
  from facade_lazy [OF wf_state_start [OF assms] l, of e] assms(1)
  show "\<exists>s'. facade e call s = Some s' \<and>
          take 2 (new_events s s') = [Lock, GetJobacctType] \<and>
          (g_jobacct_context s' \<noteq> None) = backend_available e"
    by (auto simp add: new_events_append)
next
  assume "\<not> lazy_init_call call"
  with assms show "facade e call s = Some (idle s)"
    by (rule facade_no_context)
qed

theorem lazy_init_only_in_four_entry_points_witness:
  "g_jobacct_context s_start = None \<and> \<not> g_jobacct_context_lock s_start \<and>
   (\<exists>s'. facade env_ok G_alloc s_start = Some s' \<and>
      take 2 (new_events s_start s') = [Lock, GetJobacctType] \<and>
      g_jobacct_context s' \<noteq> None) \<and>
   facade env_ok (G_job_start_slurmctld None) s_start = Some (idle s_start)"
proof -
  have h: "g_jobacct_context s_start = None" "\<not> g_jobacct_context_lock s_start"
    by (simp_all add: s_start_def)
  from lazy_init_only_in_four_entry_points [OF h, of G_alloc env_ok]
    lazy_init_only_in_four_entry_points [OF h, of "G_job_start_slurmctld None" env_ok]
    env_ok_available h
  show ?thesis
    by simp
qed

text \<open>
  Claim C4 as stated fails: \<open>jobacct_g_free\<close> and \<open>jobacct_g_job_start_slurmctld\<close>,
  called with no context in an environment where initialization would succeed, return
  without reading the configuration and leave the context NULL.
\<close>

theorem entry_points_skip_init_counterexample:
  "g_jobacct_context s_start = None \<and> backend_available env_ok \<and>
   jobacct_g_free env_ok None s_start
     = Some (SLURM_SUCCESS, s_start\<lparr>trace := [Lock, Unlock]\<rparr>) \<and>
   jobacct_g_job_start_slurmctld env_ok None s_start
     = Some (SLURM_SUCCESS, s_start\<lparr>trace := [Lock, Unlock]\<rparr>) \<and>
   g_jobacct_context (s_start\<lparr>trace := [Lock, Unlock]\<rparr>) = None \<and>
   GetJobacctType \<notin> set [Lock, Unlock]"
  using env_ok_available
  by (simp add: jobacct_g_free_def jobacct_g_job_start_slurmctld_def lock_simps s_start_def)


lemma init_env_17:
  "slurm_jobacct_init env_17 s_start = Some (SLURM_ERROR, s_failed)"
proof -
  have c: "resolved_count env_17 7 < length syms"
    by (simp add: env_17_count length_syms)
  show ?thesis
    unfolding s_start_def s_failed_def
    by (subst init_incomplete [where ty = "''jobacct/log''" and r = 1 and plug = 7,
          OF _ _ _ c refl refl])
      (simp_all add: env_17_def env_ok_def length_syms SLURM_ERROR_def SLURM_SUCCESS_def)
qed

text \<open>
  Claim C2, as amended. When the plugin that is found resolves fewer than all the symbols
  of \<open>syms\<close>, \<open>_slurm_jobacct_init\<close> returns \<open>SLURM_ERROR\<close> and leaves the global
  context NULL; an entry point that initializes then returns without calling the backend.
  In every reachable state the global is NULL or points to a context whose operations are
  all resolved. A later call of one of the four entry points that initialize, in any
  environment, attempts the initialization again from the start (it reads the configured
  type) and installs a context exactly when that environment allows it, with every
  operation resolved; a later call of any other entry point only takes and releases the
  lock.
\<close>

theorem incomplete_backend_installs_no_context:
  "(reachable s0 \<longrightarrow> wf_state s0) \<and>
   (g_jobacct_context s = None \<and> \<not> g_jobacct_context_lock s \<and>
    slurm_get_jobacct_type e = Some ty \<and> plugrack_create e = Some r \<and>
    plugrack_use_by_type e r ty = Some plug \<and> resolved_count e plug < length syms \<longrightarrow>
      (\<exists>s'. slurm_jobacct_init e s = Some (SLURM_ERROR, s') \<and>
         g_jobacct_context s' = None \<and> \<not> g_jobacct_context_lock s' \<and>
         (\<forall>call. lazy_init_call call \<longrightarrow>
            (\<exists>s1. facade e call s = Some s1 \<and> g_jobacct_context s1 = None \<and>
               (\<forall>f args. Call f args \<notin> set (new_events s s1)))) \<and>
         (\<forall>call e'. lazy_init_call call \<longrightarrow>
            (\<exists>s''. facade e' call s' = Some s'' \<and>
               take 2 (new_events s' s'') = [Lock, GetJobacctType] \<and> wf_state s'' \<and>
               (g_jobacct_context s'' \<noteq> None) = backend_available e')) \<and>
         (\<forall>call e'. \<not> lazy_init_call call \<longrightarrow> facade e' call s' = Some (idle s'))))"
proof (intro conjI impI)
  assume "reachable s0"
  then show "wf_state s0"
    by (rule reachable_wf)
next
  assume a: "g_jobacct_context s = None \<and> \<not> g_jobacct_context_lock s \<and>
    slurm_get_jobacct_type e = Some ty \<and> plugrack_create e = Some r \<and>
    plugrack_use_by_type e r ty = Some plug \<and> resolved_count e plug < length syms"
  then have w: "wf_state s"
    by (simp add: wf_state_start)
  from a have na: "\<not> backend_available e"
    by (simp add: backend_available_def)
  obtain h g l tr where s: "s = \<lparr>heap = h, g_jobacct_context = g, g_jobacct_context_lock = l,
      trace = tr\<rparr>"
    by (cases s)
  from a s have gl: "g = None" "l = False"
    by simp_all
  from a have e: "slurm_get_jobacct_type e = Some ty" "plugrack_create e = Some r"
    "plugrack_use_by_type e r ty = Some plug" "resolved_count e plug < length syms"
    by simp_all
  have "\<exists>s'. slurm_jobacct_init e s = Some (SLURM_ERROR, s') \<and>
      g_jobacct_context s' = None \<and> \<not> g_jobacct_context_lock s'"
    unfolding s gl init_incomplete [OF e refl refl] by (simp add: SLURM_ERROR_def)
  then obtain s' where i: "slurm_jobacct_init e s = Some (SLURM_ERROR, s')" and
    g': "g_jobacct_context s' = None" and l': "\<not> g_jobacct_context_lock s'"
    by blast
  have 1: "\<forall>call. lazy_init_call call \<longrightarrow>
            (\<exists>s1. facade e call s = Some s1 \<and> g_jobacct_context s1 = None \<and>
               (\<forall>f args. Call f args \<notin> set (new_events s s1)))"
  proof (intro allI impI)
    fix call
    assume c: "lazy_init_call call"
    from facade_lazy [OF w c, of e] a na
    show "\<exists>s1. facade e call s = Some s1 \<and> g_jobacct_context s1 = None \<and>
               (\<forall>f args. Call f args \<notin> set (new_events s s1))"
      by (auto simp add: new_events_append)
  qed
  have 2: "\<forall>call e'. lazy_init_call call \<longrightarrow>
            (\<exists>s''. facade e' call s' = Some s'' \<and>
               take 2 (new_events s' s'') = [Lock, GetJobacctType] \<and> wf_state s'' \<and>
               (g_jobacct_context s'' \<noteq> None) = backend_available e')"
  proof (intro allI impI)
    fix call e'
    assume c: "lazy_init_call call"
    from facade_lazy [OF wf_state_start [OF g' l'] c, of e'] g'
    show "\<exists>s''. facade e' call s' = Some s'' \<and>
               take 2 (new_events s' s'') = [Lock, GetJobacctType] \<and> wf_state s'' \<and>
               (g_jobacct_context s'' \<noteq> None) = backend_available e'"
      by (auto simp add: new_events_append)
  qed
  have 3: "\<forall>call e'. \<not> lazy_init_call call \<longrightarrow> facade e' call s' = Some (idle s')"
    using facade_no_context [OF g' l'] by blast
  from i g' l' 1 2 3
  show "\<exists>s'. slurm_jobacct_init e s = Some (SLURM_ERROR, s') \<and>
         g_jobacct_context s' = None \<and> \<not> g_jobacct_context_lock s' \<and>
         (\<forall>call. lazy_init_call call \<longrightarrow>
            (\<exists>s1. facade e call s = Some s1 \<and> g_jobacct_context s1 = None \<and>
               (\<forall>f args. Call f args \<notin> set (new_events s s1)))) \<and>
         (\<forall>call e'. lazy_init_call call \<longrightarrow>
            (\<exists>s''. facade e' call s' = Some s'' \<and>
               take 2 (new_events s' s'') = [Lock, GetJobacctType] \<and> wf_state s'' \<and>
               (g_jobacct_context s'' \<noteq> None) = backend_available e')) \<and>
         (\<forall>call e'. \<not> lazy_init_call call \<longrightarrow> facade e' call s' = Some (idle s'))"
    by blast
qed

theorem incomplete_backend_installs_no_context_witness:
  "reachable s_start \<and> wf_state s_start \<and>
   g_jobacct_context s_start = None \<and> \<not> g_jobacct_context_lock s_start \<and>
   slurm_get_jobacct_type env_17 = Some ''jobacct/log'' \<and> plugrack_create env_17 = Some 1 \<and>
   plugrack_use_by_type env_17 1 ''jobacct/log'' = Some 7 \<and>
   resolved_count env_17 7 < length syms \<and>
   (\<exists>s'. slurm_jobacct_init env_17 s_start = Some (SLURM_ERROR, s') \<and>
      g_jobacct_context s' = None \<and>
      (\<exists>s''. facade env_ok G_alloc s' = Some s'' \<and> wf_state s'' \<and>
         g_jobacct_context s'' \<noteq> None) \<and>
      facade env_ok (G_free None) s' = Some (idle s'))"
proof -
  have r: "reachable s_start"
    by (rule reachable.start) (simp_all add: s_start_def)
  have h: "g_jobacct_context s_start = None \<and> \<not> g_jobacct_context_lock s_start \<and>
    slurm_get_jobacct_type env_17 = Some ''jobacct/log'' \<and> plugrack_create env_17 = Some 1 \<and>
    plugrack_use_by_type env_17 1 ''jobacct/log'' = Some 7 \<and>
    resolved_count env_17 7 < length syms"
    using env_17_count [of 7]
    by (simp add: s_start_def env_17_def env_ok_def length_syms)
  have l: "lazy_init_call G_alloc" "\<not> lazy_init_call (G_free None)"
    by simp_all
  from incomplete_backend_installs_no_context
    [of s_start s_start env_17 "''jobacct/log''" 1 7] r h l env_ok_available
  show ?thesis
    by blast
qed

text \<open>
  Claim C2 as stated fails in its last part: after the failed initialization, a call of
  \<open>jobacct_g_job_start_slurmctld\<close> in an environment where initialization would succeed
  does not attempt it: it reads no configuration and the context stays NULL.
\<close>

theorem later_call_without_init_counterexample:
  "slurm_jobacct_init env_17 s_start = Some (SLURM_ERROR, s_failed) \<and>
   backend_available env_ok \<and>
   jobacct_g_job_start_slurmctld env_ok None s_failed = Some (SLURM_SUCCESS, idle s_failed) \<and>
   g_jobacct_context (idle s_failed) = None \<and>
   new_events s_failed (idle s_failed) = [Lock, Unlock]"
proof -
  have h: "g_jobacct_context s_failed = None" "\<not> g_jobacct_context_lock s_failed"
    by (simp_all add: s_failed_def s_start_def)
  from init_env_17 env_ok_available jobacct_g_job_start_slurmctld_no_context [OF h] h
  show ?thesis
    by (simp add: idle_def new_events_def)
qed

lemmas fini_defs = jobacct_g_fini_slurmctld_def slurm_jobacct_fini_def
  slurm_jobacct_context_destroy_def call_int_def lock_simps xfree_def ctx_at_def Let_def

text \<open>
  Claim C3, as amended. From any well-formed state, \<open>jobacct_g_fini_slurmctld\<close> returns
  and leaves the global context NULL, whatever the backend's own finalize operation and
  \<open>plugrack_destroy\<close> report. With no context it only takes and releases the lock. With a
  context it calls the backend's finalize operation under the lock and then tears the
  context down: when the context has no plugin rack, or \<open>plugrack_destroy\<close> succeeds, the
  copy of the type name and the context are released and the backend's status is
  returned; when \<open>plugrack_destroy\<close> fails, \<open>SLURM_ERROR\<close> is returned and nothing is
  released: the context stays allocated, with no pointer to it. The next call of an entry
  point that initializes lazily, in any environment, goes through initialization from the
  start: it reads the configured type and installs a context exactly when that
  environment allows it.
\<close>

theorem fini_destroys_context:
  assumes "wf_state s"
  shows "(g_jobacct_context s = None \<longrightarrow>
            jobacct_g_fini_slurmctld e s = Some (SLURM_SUCCESS, idle s)) \<and>
         (g_jobacct_context s = Some c \<and> ctx_at s c = Some x \<and> jobacct_fini (ops x) = Some f \<longrightarrow>
            (plugin_list x = None \<longrightarrow>
               jobacct_g_fini_slurmctld e s
                 = Some (backend_int e f [],
                     (xfree (Some c) (xfree (jobacct_type x) s))
                       \<lparr>g_jobacct_context := None,
                        trace := trace s @ [Lock, Call f [], Unlock]\<rparr>)) \<and>
            (plugin_list x = Some r \<and> plugrack_destroy e r = SLURM_SUCCESS \<longrightarrow>
               jobacct_g_fini_slurmctld e s
                 = Some (backend_int e f [],
                     (xfree (Some c) (xfree (jobacct_type x) s))
                       \<lparr>g_jobacct_context := None,
                        trace := trace s @ [Lock, Call f [], Unlock, PlugrackDestroy r]\<rparr>)) \<and>
            (plugin_list x = Some r \<and> plugrack_destroy e r \<noteq> SLURM_SUCCESS \<longrightarrow>
               jobacct_g_fini_slurmctld e s
                 = Some (SLURM_ERROR,
                     s\<lparr>g_jobacct_context := None,
                       trace := trace s @ [Lock, Call f [], Unlock, PlugrackDestroy r]\<rparr>))) \<and>
         (\<exists>rv s'. jobacct_g_fini_slurmctld e s = Some (rv, s') \<and>
            g_jobacct_context s' = None \<and> \<not> g_jobacct_context_lock s' \<and>
            (\<forall>call e'. lazy_init_call call \<longrightarrow>
               (\<exists>s''. facade e' call s' = Some s'' \<and>
                  take 2 (new_events s' s'') = [Lock, GetJobacctType] \<and>
                  (g_jobacct_context s'' \<noteq> None) = backend_available e')))"
proof (intro conjI)
  from assms show "g_jobacct_context s = None \<longrightarrow>
      jobacct_g_fini_slurmctld e s = Some (SLURM_SUCCESS, idle s)"
    by (simp add: jobacct_g_fini_slurmctld_no_context wf_state_def)
next
  obtain h g l tr where s: "s = \<lparr>heap = h, g_jobacct_context = g, g_jobacct_context_lock = l,
      trace = tr\<rparr>"
    by (cases s)
  from assms s have l: "l = False"
    by (simp add: wf_state_def)
  show "g_jobacct_context s = Some c \<and> ctx_at s c = Some x \<and> jobacct_fini (ops x) = Some f \<longrightarrow>
            (plugin_list x = None \<longrightarrow>
               jobacct_g_fini_slurmctld e s
                 = Some (backend_int e f [],
                     (xfree (Some c) (xfree (jobacct_type x) s))
                       \<lparr>g_jobacct_context := None,
                        trace := trace s @ [Lock, Call f [], Unlock]\<rparr>)) \<and>
            (plugin_list x = Some r \<and> plugrack_destroy e r = SLURM_SUCCESS \<longrightarrow>
               jobacct_g_fini_slurmctld e s
                 = Some (backend_int e f [],
                     (xfree (Some c) (xfree (jobacct_type x) s))
                       \<lparr>g_jobacct_context := None,
                        trace := trace s @ [Lock, Call f [], Unlock, PlugrackDestroy r]\<rparr>)) \<and>
            (plugin_list x = Some r \<and> plugrack_destroy e r \<noteq> SLURM_SUCCESS \<longrightarrow>
               jobacct_g_fini_slurmctld e s
                 = Some (SLURM_ERROR,
                     s\<lparr>g_jobacct_context := None,
                       trace := trace s @ [Lock, Call f [], Unlock, PlugrackDestroy r]\<rparr>))"
    unfolding s l
    by (auto simp add: fini_defs SLURM_SUCCESS_def SLURM_ERROR_def
        split: option.splits obj.splits)
next
  from facade_fini [OF assms, of e] obtain s' es where
    p: "facade e G_fini_slurmctld s = Some s' \<and>
        g_jobacct_context s' = None \<and> \<not> g_jobacct_context_lock s' \<and>
        trace s' = trace s @ es \<and> lock_respected False es \<and>
        (g_jobacct_context s = None \<longrightarrow> es = [Lock, Unlock]) \<and>
        (g_jobacct_context s \<noteq> None \<longrightarrow> (\<exists>f. take 3 es = [Lock, Call f [], Unlock]))"
    by (elim exE) (erule that)
  then obtain rv where r: "jobacct_g_fini_slurmctld e s = Some (rv, s')"
    by auto
  from p have g': "g_jobacct_context s' = None" and l': "\<not> g_jobacct_context_lock s'"
    by simp_all
  have 2: "\<forall>call e'. lazy_init_call call \<longrightarrow>
              (\<exists>s''. facade e' call s' = Some s'' \<and>
                 take 2 (new_events s' s'') = [Lock, GetJobacctType] \<and>
                 (g_jobacct_context s'' \<noteq> None) = backend_available e')"
  proof (intro allI impI)
    fix call e'
    assume c: "lazy_init_call call"
    from facade_lazy [OF wf_state_start [OF g' l'] c, of e'] g'
    show "\<exists>s''. facade e' call s' = Some s'' \<and>
            take 2 (new_events s' s'') = [Lock, GetJobacctType] \<and>
            (g_jobacct_context s'' \<noteq> None) = backend_available e'"
      by (auto simp add: new_events_append)
  qed
  from r g' l' 2
  show "\<exists>rv s'. jobacct_g_fini_slurmctld e s = Some (rv, s') \<and>
            g_jobacct_context s' = None \<and> \<not> g_jobacct_context_lock s' \<and>
            (\<forall>call e'. lazy_init_call call \<longrightarrow>
               (\<exists>s''. facade e' call s' = Some s'' \<and>
                  take 2 (new_events s' s'') = [Lock, GetJobacctType] \<and>
                  (g_jobacct_context s'' \<noteq> None) = backend_available e'))"
    by blast
qed

theorem fini_destroys_context_witness:
  "wf_state s_start \<and> g_jobacct_context s_start = None \<and>
   jobacct_g_fini_slurmctld env_ok s_start = Some (SLURM_SUCCESS, idle s_start) \<and>
   wf_state s_ready \<and> g_jobacct_context s_ready = Some 2 \<and>
   ctx_at s_ready 2 = Some ctx_ready \<and> jobacct_fini (ops ctx_ready) = Some 109 \<and>
   plugin_list ctx_ready = Some 1 \<and>
   plugrack_destroy env_ok 1 = SLURM_SUCCESS \<and>
   jobacct_g_fini_slurmctld env_ok s_ready
     = Some (5, \<lparr>heap = [], g_jobacct_context = None, g_jobacct_context_lock = False,
          trace = [Lock, Call 109 [], Unlock, PlugrackDestroy 1]\<rparr>) \<and>
   backend_int env_failing 109 [] = SLURM_ERROR \<and>
   plugrack_destroy env_failing 1 \<noteq> SLURM_SUCCESS \<and>
   jobacct_g_fini_slurmctld env_failing s_ready
     = Some (SLURM_ERROR, s_ready\<lparr>g_jobacct_context := None,
          trace := [Lock, Call 109 [], Unlock, PlugrackDestroy 1]\<rparr>) \<and>
   (\<exists>rv s'. jobacct_g_fini_slurmctld env_failing s_ready = Some (rv, s') \<and>
      g_jobacct_context s' = None \<and>
      (\<exists>s''. facade env_ok G_alloc s' = Some s'' \<and>
         take 2 (new_events s' s'') = [Lock, GetJobacctType] \<and>
         g_jobacct_context s'' \<noteq> None))"
proof -
  have w0: "wf_state s_start" and g0: "g_jobacct_context s_start = None"
    by (simp_all add: wf_state_start s_start_def)
  have h: "g_jobacct_context s_ready = Some 2" "ctx_at s_ready 2 = Some ctx_ready"
    "jobacct_fini (ops ctx_ready) = Some 109" "plugin_list ctx_ready = Some 1"
    by (simp_all add: s_ready_def ctx_at_def ctx_ready_def ops_ready_def)
  have e: "plugrack_destroy env_ok 1 = SLURM_SUCCESS" "backend_int env_ok 109 [] = 5"
    "backend_int env_failing 109 [] = SLURM_ERROR"
    "plugrack_destroy env_failing 1 \<noteq> SLURM_SUCCESS"
    by (simp_all add: env_failing_def env_ok_def SLURM_SUCCESS_def SLURM_ERROR_def)
  have x: "(xfree (Some 2) (xfree (jobacct_type ctx_ready) s_ready))
             \<lparr>g_jobacct_context := None,
              trace := trace s_ready @ [Lock, Call 109 [], Unlock, PlugrackDestroy 1]\<rparr>
           = \<lparr>heap = [], g_jobacct_context = None, g_jobacct_context_lock = False,
               trace = [Lock, Call 109 [], Unlock, PlugrackDestroy 1]\<rparr>"
    by (simp add: xfree_def s_ready_def ctx_ready_def)
  have t: "trace s_ready = []"
    by (simp add: s_ready_def)
  have l: "lazy_init_call G_alloc"
    by simp
  from fini_destroys_context [OF w0, where e = env_ok] g0
  have 1: "jobacct_g_fini_slurmctld env_ok s_start = Some (SLURM_SUCCESS, idle s_start)"
    by blast
  from fini_destroys_context
    [OF wf_state_ready, where c = 2 and x = ctx_ready and f = 109 and e = env_ok and r = 1] h e
  have "jobacct_g_fini_slurmctld env_ok s_ready
     = Some (backend_int env_ok 109 [],
         (xfree (Some 2) (xfree (jobacct_type ctx_ready) s_ready))
           \<lparr>g_jobacct_context := None,
            trace := trace s_ready @ [Lock, Call 109 [], Unlock, PlugrackDestroy 1]\<rparr>)"
    by blast
  then have 2: "jobacct_g_fini_slurmctld env_ok s_ready
     = Some (5, \<lparr>heap = [], g_jobacct_context = None, g_jobacct_context_lock = False,
          trace = [Lock, Call 109 [], Unlock, PlugrackDestroy 1]\<rparr>)"
    unfolding x e(2) .
  from fini_destroys_context
    [OF wf_state_ready, where c = 2 and x = ctx_ready and f = 109 and e = env_failing and r = 1]
    h e
  have "jobacct_g_fini_slurmctld env_failing s_ready
     = Some (SLURM_ERROR, s_ready\<lparr>g_jobacct_context := None,
          trace := trace s_ready @ [Lock, Call 109 [], Unlock, PlugrackDestroy 1]\<rparr>)"
    by blast
  then have 3: "jobacct_g_fini_slurmctld env_failing s_ready
     = Some (SLURM_ERROR, s_ready\<lparr>g_jobacct_context := None,
          trace := [Lock, Call 109 [], Unlock, PlugrackDestroy 1]\<rparr>)"
    unfolding t by simp
  from fini_destroys_context
    [OF wf_state_ready, where c = 2 and x = ctx_ready and f = 109 and e = env_failing and r = 1]
    l
    env_ok_available
  have 4: "\<exists>rv s'. jobacct_g_fini_slurmctld env_failing s_ready = Some (rv, s') \<and>
      g_jobacct_context s' = None \<and>
      (\<exists>s''. facade env_ok G_alloc s' = Some s'' \<and>
         take 2 (new_events s' s'') = [Lock, GetJobacctType] \<and>
         g_jobacct_context s'' \<noteq> None)"
    by blast
  from w0 g0 wf_state_ready h e 1 2 3 4 show ?thesis
    by simp
qed

text \<open>
  Claim C3 as stated fails when \<open>plugrack_destroy\<close> fails: after
  \<open>jobacct_g_fini_slurmctld\<close> the global context is NULL, but the context is not
  destroyed. It is still allocated at address 2, with its copy of the type name at address
  3 and its plugin rack, and nothing points to it any more.
\<close>

theorem fini_leaves_context_allocated_counterexample:
  "jobacct_g_fini_slurmctld env_failing s_ready
     = Some (SLURM_ERROR, s_ready\<lparr>g_jobacct_context := None,
          trace := [Lock, Call 109 [], Unlock, PlugrackDestroy 1]\<rparr>) \<and>
   heap (s_ready\<lparr>g_jobacct_context := None,
          trace := [Lock, Call 109 [], Unlock, PlugrackDestroy 1]\<rparr>)
     = [(3, Str ''jobacct/log''), (2, Ctx ctx_ready)] \<and>
   plugin_list ctx_ready = Some 1"
  by (simp add: fini_defs s_ready_def ctx_ready_def ops_ready_def env_failing_def env_ok_def
      SLURM_SUCCESS_def SLURM_ERROR_def)

subsection \<open>Claims about the lock\<close>





end
